theory Spec2Isabelle
  imports Main "HOL-Library.Word"
begin

section \<open>Overview\<close>

text \<open>
  The repository holds three extensions of a coding-agent host. The voice extension
  (\<open>voice-to-text/index.ts\<close>) is modelled here: the configuration file, the arguments of
  the capture process, \<open>waitForFile\<close>, \<open>transcribeFile\<close>, and the handlers the
  extension registers with the host. A function that reads the world outside (the file
  system, the clock, the transport, the host's user interface) takes what the world
  answers as an argument and returns, beside its result, the calls it made. The other
  two extensions register a provider description and a command that calls
  \<open>ctx.shutdown()\<close>; they hold no logic of their own.
\<close>

section \<open>JavaScript strings\<close>

text \<open>
  A JavaScript string is a sequence of 16-bit code units. String literals of the source
  are ASCII and are written \<open>lit ''...''\<close>.
\<close>

type_synonym jsstring = "16 word list"

definition lit :: "string \<Rightarrow> jsstring" where
  "lit s = map (\<lambda>c. of_nat (of_char c)) s"

text \<open>
  \<open>String.prototype.trim\<close> removes the code units of WhiteSpace and LineTerminator
  (all of them lie in the basic plane) from both ends.
\<close>

definition is_js_space :: "16 word \<Rightarrow> bool" where
  "is_js_space c = (c \<in> set [0x9, 0xA, 0xB, 0xC, 0xD, 0x20, 0xA0, 0x1680, 0x2028, 0x2029,
                               0x202F, 0x205F, 0x3000, 0xFEFF]
                    \<or> (0x2000 \<le> c \<and> c \<le> 0x200A))"

definition trim :: "jsstring \<Rightarrow> jsstring" where
  "trim s = rev (dropWhile is_js_space (rev (dropWhile is_js_space s)))"

text \<open>\<open>s.includes(pat)\<close>: \<open>pat\<close> occurs in \<open>s\<close> as a substring.\<close>

fun str_includes :: "jsstring \<Rightarrow> jsstring \<Rightarrow> bool" where
  "str_includes [] pat = (pat = [])"
| "str_includes (c # cs) pat = (take (length pat) (c # cs) = pat \<or> str_includes cs pat)"

text \<open>
  Template literals convert a number with \<open>Number::toString\<close>; for a natural number
  this is its decimal representation.
\<close>

definition digit_unit :: "nat \<Rightarrow> 16 word" where
  "digit_unit d = 0x30 + of_nat d"

fun show_nat :: "nat \<Rightarrow> jsstring" where
  "show_nat n = (if n < 10 then [digit_unit n] else show_nat (n div 10) @ [digit_unit (n mod 10)])"

section \<open>Errors\<close>

text \<open>
  A thrown value or a rejected promise is a \<open>js_error\<close>; a computation that may throw
  returns \<open>js_error + 'a\<close>. \<open>Error\<close> is \<open>new Error(message)\<close> of the source,
  the others are raised by the platform (\<open>SystemError\<close> carries the code of a failed
  system call).
\<close>

datatype js_error = Error jsstring | TypeError jsstring | SyntaxError jsstring | SystemError jsstring

section \<open>JSON\<close>

text \<open>
  \<open>JSON.parse\<close> and \<open>JSON.stringify\<close> belong to the platform. They are modelled after
  ECMA-262: the lexical grammar (four white space characters, the literals, strings with
  their escapes, numbers), the syntactic grammar (run here as a stack machine over the
  tokens), property creation in source order where a repeated key keeps its place and
  takes the last value, the order of own property keys (array indices ascending, then
  the other keys in creation order), \<open>QuoteJSONString\<close> and the indentation of
  \<open>SerializeJSONObject\<close> and \<open>SerializeJSONArray\<close>.

  A number is kept as its literal. Its value is an IEEE double, which is not modelled:
  the serializer takes the composition of \<open>StringToNumber\<close> and \<open>Number::toString\<close>
  as its first argument.
\<close>

datatype json = JNull | JBool bool | JNumber jsstring | JString jsstring
  | JArray "json list" | JObject "(jsstring \<times> json) list"

datatype token = TLBrace | TRBrace | TLBracket | TRBracket | TColon | TComma
  | TNull | TTrue | TFalse | TStr jsstring | TNum jsstring

definition is_json_ws :: "16 word \<Rightarrow> bool" where
  "is_json_ws c = (c = 0x09 \<or> c = 0x0A \<or> c = 0x0D \<or> c = 0x20)"

definition is_digit :: "16 word \<Rightarrow> bool" where
  "is_digit c = (0x30 \<le> c \<and> c \<le> 0x39)"

definition hex_val :: "16 word \<Rightarrow> 16 word option" where
  "hex_val c = (if 0x30 \<le> c \<and> c \<le> 0x39 then Some (c - 0x30)
                else if 0x61 \<le> c \<and> c \<le> 0x66 then Some (c - 0x57)
                else if 0x41 \<le> c \<and> c \<le> 0x46 then Some (c - 0x37)
                else None)"

definition hex4 :: "16 word \<Rightarrow> 16 word \<Rightarrow> 16 word \<Rightarrow> 16 word \<Rightarrow> 16 word option" where
  "hex4 a b c d =
     (case (hex_val a, hex_val b, hex_val c, hex_val d) of
        (Some x, Some y, Some z, Some w) \<Rightarrow> Some (x * 0x1000 + y * 0x100 + z * 0x10 + w)
      | _ \<Rightarrow> None)"

definition unescape :: "16 word \<Rightarrow> 16 word option" where
  "unescape e = (if e = 0x22 then Some 0x22
                 else if e = 0x5C then Some 0x5C
                 else if e = 0x2F then Some 0x2F
                 else if e = 0x62 then Some 0x08
                 else if e = 0x66 then Some 0x0C
                 else if e = 0x6E then Some 0x0A
                 else if e = 0x72 then Some 0x0D
                 else if e = 0x74 then Some 0x09
                 else None)"

fun lex_string :: "jsstring \<Rightarrow> jsstring \<Rightarrow> (jsstring \<times> jsstring) option" where
  "lex_string acc [] = None"
| "lex_string acc (c # cs) =
     (if c = 0x22 then Some (rev acc, cs)
      else if c = 0x5C then
        (case cs of
           [] \<Rightarrow> None
         | e # r \<Rightarrow>
             if e = 0x75 then
               (case r of
                  h1 # h2 # h3 # h4 # r' \<Rightarrow>
                    (case hex4 h1 h2 h3 h4 of
                       None \<Rightarrow> None
                     | Some u \<Rightarrow> lex_string (u # acc) r')
                | _ \<Rightarrow> None)
             else
               (case unescape e of
                  None \<Rightarrow> None
                | Some u \<Rightarrow> lex_string (u # acc) r))
      else if c < 0x20 then None
      else lex_string (c # acc) cs)"

definition lex_int :: "jsstring \<Rightarrow> (jsstring \<times> jsstring) option" where
  "lex_int s =
     (case s of
        [] \<Rightarrow> None
      | d # r \<Rightarrow>
          if d = 0x30 then Some ([d], r)
          else if is_digit d then Some (d # takeWhile is_digit r, dropWhile is_digit r)
          else None)"

definition lex_frac :: "jsstring \<Rightarrow> (jsstring \<times> jsstring) option" where
  "lex_frac s =
     (case s of
        [] \<Rightarrow> Some ([], s)
      | d # r \<Rightarrow>
          if d = 0x2E then
            (if takeWhile is_digit r = [] then None
             else Some (d # takeWhile is_digit r, dropWhile is_digit r))
          else Some ([], s))"

definition lex_exp :: "jsstring \<Rightarrow> (jsstring \<times> jsstring) option" where
  "lex_exp s =
     (case s of
        [] \<Rightarrow> Some ([], s)
      | e # r \<Rightarrow>
          if e = 0x65 \<or> e = 0x45 then
            (let sg = (case r of [] \<Rightarrow> [] | g # _ \<Rightarrow> if g = 0x2B \<or> g = 0x2D then [g] else []);
                 r' = drop (length sg) r
             in if takeWhile is_digit r' = [] then None
                else Some (e # sg @ takeWhile is_digit r', dropWhile is_digit r'))
          else Some ([], s))"

definition lex_number :: "jsstring \<Rightarrow> (jsstring \<times> jsstring) option" where
  "lex_number s =
     (let sg = (case s of [] \<Rightarrow> [] | g # _ \<Rightarrow> if g = 0x2D then [g] else [])
      in case lex_int (drop (length sg) s) of
           None \<Rightarrow> None
         | Some (i, s2) \<Rightarrow>
             (case lex_frac s2 of
                None \<Rightarrow> None
              | Some (f, s3) \<Rightarrow>
                  (case lex_exp s3 of
                     None \<Rightarrow> None
                   | Some (e, s4) \<Rightarrow> Some (sg @ i @ f @ e, s4))))"

definition keyword :: "string \<Rightarrow> token \<Rightarrow> jsstring \<Rightarrow> (token \<times> jsstring) option" where
  "keyword w t s = (if take (length w) s = lit w then Some (t, drop (length w) s) else None)"

definition next_token :: "jsstring \<Rightarrow> (token \<times> jsstring) option" where
  "next_token s =
     (case s of
        [] \<Rightarrow> None
      | c # cs \<Rightarrow>
          if c = 0x7B then Some (TLBrace, cs)
          else if c = 0x7D then Some (TRBrace, cs)
          else if c = 0x5B then Some (TLBracket, cs)
          else if c = 0x5D then Some (TRBracket, cs)
          else if c = 0x3A then Some (TColon, cs)
          else if c = 0x2C then Some (TComma, cs)
          else if c = 0x22 then map_option (\<lambda>(v, r). (TStr v, r)) (lex_string [] cs)
          else if c = 0x6E then keyword ''null'' TNull s
          else if c = 0x74 then keyword ''true'' TTrue s
          else if c = 0x66 then keyword ''false'' TFalse s
          else if c = 0x2D \<or> is_digit c then map_option (\<lambda>(n, r). (TNum n, r)) (lex_number s)
          else None)"

lemma lex_string_shorter: "lex_string acc s = Some (v, r) \<Longrightarrow> length r < length s"
  apply (induction acc s rule: lex_string.induct)
   apply simp
  apply (auto split: if_splits list.splits option.splits)
   apply fastforce+
  done

lemma length_dropWhile_le': "length (dropWhile P xs) \<le> length xs"
  by (induction xs) auto

lemma lex_int_shorter: "lex_int s = Some (v, r) \<Longrightarrow> length r < length s"
  by (auto simp: lex_int_def less_Suc_eq_le length_dropWhile_le' split: list.splits if_splits)

lemma lex_frac_shorter: "lex_frac s = Some (v, r) \<Longrightarrow> length r \<le> length s"
  by (auto simp: lex_frac_def le_SucI length_dropWhile_le' split: list.splits if_splits)

lemma lex_exp_shorter: "lex_exp s = Some (v, r) \<Longrightarrow> length r \<le> length s"
  apply (auto simp: lex_exp_def Let_def  split: list.splits if_splits)
  apply (metis diff_le_self dual_order.trans le_SucI length_drop length_dropWhile_le')+
  done

lemma lex_number_shorter: "lex_number s = Some (v, r) \<Longrightarrow> length r < length s"
  apply (auto simp: lex_number_def Let_def split: option.splits)
  apply (drule lex_int_shorter lex_frac_shorter lex_exp_shorter)+
  apply (auto split: list.splits if_splits)
  done

lemma next_token_shorter: "next_token s = Some (t, r) \<Longrightarrow> length r < length s"
  by (auto simp: next_token_def keyword_def lit_def
        dest: lex_string_shorter lex_number_shorter split: list.splits if_splits)

function lex :: "jsstring \<Rightarrow> token list option" where
  "lex s =
     (case dropWhile is_json_ws s of
        [] \<Rightarrow> Some []
      | c # cs \<Rightarrow>
          (case next_token (c # cs) of
             None \<Rightarrow> None
           | Some (t, rest) \<Rightarrow> map_option ((#) t) (lex rest)))"
  by pat_completeness auto
termination
proof (relation "measure length")
  show "wf (measure length)" by simp
next
  fix s :: jsstring and c cs x t rest
  assume d: "dropWhile is_json_ws s = c # cs" and n: "next_token (c # cs) = Some x" and x: "(t, rest) = x"
  from n x have "length rest < length (c # cs)" by (auto dest: next_token_shorter)
  also have "\<dots> \<le> length s" using length_dropWhile_le' [of is_json_ws s] by (simp add: d)
  finally show "(rest, s) \<in> measure length" by simp
qed

fun obj_set :: "(jsstring \<times> json) list \<Rightarrow> jsstring \<Rightarrow> json \<Rightarrow> (jsstring \<times> json) list" where
  "obj_set [] k v = [(k, v)]"
| "obj_set ((k', v') # kvs) k v = (if k' = k then (k', v) # kvs else (k', v') # obj_set kvs k v)"

definition digits_val :: "jsstring \<Rightarrow> int" where
  "digits_val ds = foldl (\<lambda>n d. 10 * n + uint (d - 0x30)) 0 ds"

definition is_array_index :: "jsstring \<Rightarrow> bool" where
  "is_array_index k =
     (k \<noteq> [] \<and> list_all is_digit k \<and> (k = [0x30] \<or> hd k \<noteq> 0x30) \<and> digits_val k < 4294967295)"

definition own_property_order :: "(jsstring \<times> json) list \<Rightarrow> (jsstring \<times> json) list" where
  "own_property_order kvs =
     sort_key (\<lambda>(k, v). digits_val k) (filter (\<lambda>(k, v). is_array_index k) kvs)
     @ filter (\<lambda>(k, v). \<not> is_array_index k) kvs"

datatype frame = FArr "json list" | FObj "(jsstring \<times> json) list" "jsstring option"

datatype pmode = MValue | MValueOrEnd | MKeyOrEnd | MKey | MColon | MCommaOrEnd | MDone json

fun push_value :: "json \<Rightarrow> frame list \<Rightarrow> (frame list \<times> pmode) option" where
  "push_value v [] = Some ([], MDone v)"
| "push_value v (FArr vs # st) = Some (FArr (vs @ [v]) # st, MCommaOrEnd)"
| "push_value v (FObj kvs (Some k) # st) = Some (FObj (obj_set kvs k v) None # st, MCommaOrEnd)"
| "push_value v (FObj kvs None # st) = None"

fun close_array :: "frame list \<Rightarrow> (frame list \<times> pmode) option" where
  "close_array (FArr vs # st) = push_value (JArray vs) st"
| "close_array _ = None"

fun close_object :: "frame list \<Rightarrow> (frame list \<times> pmode) option" where
  "close_object (FObj kvs None # st) = push_value (JObject (own_property_order kvs)) st"
| "close_object _ = None"

fun open_key :: "jsstring \<Rightarrow> frame list \<Rightarrow> (frame list \<times> pmode) option" where
  "open_key k (FObj kvs None # st) = Some (FObj kvs (Some k) # st, MColon)"
| "open_key k _ = None"

fun start_value :: "frame list \<Rightarrow> token \<Rightarrow> (frame list \<times> pmode) option" where
  "start_value st TNull = push_value JNull st"
| "start_value st TTrue = push_value (JBool True) st"
| "start_value st TFalse = push_value (JBool False) st"
| "start_value st (TStr s) = push_value (JString s) st"
| "start_value st (TNum n) = push_value (JNumber n) st"
| "start_value st TLBracket = Some (FArr [] # st, MValueOrEnd)"
| "start_value st TLBrace = Some (FObj [] None # st, MKeyOrEnd)"
| "start_value st _ = None"

fun pstep :: "frame list \<times> pmode \<Rightarrow> token \<Rightarrow> (frame list \<times> pmode) option" where
  "pstep (st, MValue) t = start_value st t"
| "pstep (st, MValueOrEnd) t = (if t = TRBracket then close_array st else start_value st t)"
| "pstep (st, MKeyOrEnd) t =
     (case t of TStr k \<Rightarrow> open_key k st | TRBrace \<Rightarrow> close_object st | _ \<Rightarrow> None)"
| "pstep (st, MKey) t = (case t of TStr k \<Rightarrow> open_key k st | _ \<Rightarrow> None)"
| "pstep (st, MColon) t = (if t = TColon then Some (st, MValue) else None)"
| "pstep (st, MCommaOrEnd) t =
     (case t of
        TComma \<Rightarrow> (case st of FArr vs # _ \<Rightarrow> Some (st, MValue)
                             | FObj kvs None # _ \<Rightarrow> Some (st, MKey)
                             | _ \<Rightarrow> None)
      | TRBracket \<Rightarrow> close_array st
      | TRBrace \<Rightarrow> close_object st
      | _ \<Rightarrow> None)"
| "pstep (st, MDone v) t = None"

fun parse_tokens :: "frame list \<times> pmode \<Rightarrow> token list \<Rightarrow> json option" where
  "parse_tokens (st, m) [] = (case m of MDone v \<Rightarrow> Some v | _ \<Rightarrow> None)"
| "parse_tokens (st, m) (t # ts) =
     (case pstep (st, m) t of None \<Rightarrow> None | Some s' \<Rightarrow> parse_tokens s' ts)"

definition JSON_parse :: "jsstring \<Rightarrow> js_error + json" where
  "JSON_parse s =
     (case lex s of
        None \<Rightarrow> Inl (SyntaxError (lit ''Unexpected token in JSON''))
      | Some ts \<Rightarrow>
          (case parse_tokens ([], MValue) ts of
             None \<Rightarrow> Inl (SyntaxError (lit ''Unexpected token in JSON''))
           | Some v \<Rightarrow> Inr v))"

definition hex_digit :: "16 word \<Rightarrow> 16 word" where
  "hex_digit d = (if d < 10 then 0x30 + d else 0x57 + d)"

definition unicode_escape :: "16 word \<Rightarrow> jsstring" where
  "unicode_escape c =
     [0x5C, 0x75, hex_digit (drop_bit 12 c), hex_digit (take_bit 4 (drop_bit 8 c)),
      hex_digit (take_bit 4 (drop_bit 4 c)), hex_digit (take_bit 4 c)]"

definition is_high_surrogate :: "16 word \<Rightarrow> bool" where
  "is_high_surrogate c = (0xD800 \<le> c \<and> c \<le> 0xDBFF)"

definition is_low_surrogate :: "16 word \<Rightarrow> bool" where
  "is_low_surrogate c = (0xDC00 \<le> c \<and> c \<le> 0xDFFF)"

fun quote_units :: "jsstring \<Rightarrow> jsstring" where
  "quote_units [] = []"
| "quote_units (c # cs) =
     (if c = 0x08 then [0x5C, 0x62] @ quote_units cs
      else if c = 0x09 then [0x5C, 0x74] @ quote_units cs
      else if c = 0x0A then [0x5C, 0x6E] @ quote_units cs
      else if c = 0x0C then [0x5C, 0x66] @ quote_units cs
      else if c = 0x0D then [0x5C, 0x72] @ quote_units cs
      else if c = 0x22 then [0x5C, 0x22] @ quote_units cs
      else if c = 0x5C then [0x5C, 0x5C] @ quote_units cs
      else if c < 0x20 then unicode_escape c @ quote_units cs
      else if is_high_surrogate c then
        (case cs of
           [] \<Rightarrow> unicode_escape c
         | d # ds \<Rightarrow> if is_low_surrogate d then c # d # quote_units ds
                     else unicode_escape c @ quote_units cs)
      else if is_low_surrogate c then unicode_escape c @ quote_units cs
      else c # quote_units cs)"

definition QuoteJSONString :: "jsstring \<Rightarrow> jsstring" where
  "QuoteJSONString s = [0x22] @ quote_units s @ [0x22]"

fun join_with :: "jsstring \<Rightarrow> jsstring list \<Rightarrow> jsstring" where
  "join_with sep [] = []"
| "join_with sep [p] = p"
| "join_with sep (p # q # ps) = p @ sep @ join_with sep (q # ps)"

definition wrap_parts :: "jsstring \<Rightarrow> jsstring \<Rightarrow> string \<Rightarrow> string \<Rightarrow> jsstring list \<Rightarrow> jsstring" where
  "wrap_parts gap stepback l r parts =
     (if parts = [] then lit l @ lit r
      else if gap = [] then lit l @ join_with (lit '','') parts @ lit r
      else lit l @ [0x0A] @ stepback @ gap
           @ join_with (lit '','' @ [0x0A] @ stepback @ gap) parts
           @ [0x0A] @ stepback @ lit r)"

fun serialize :: "(jsstring \<Rightarrow> jsstring) \<Rightarrow> jsstring \<Rightarrow> jsstring \<Rightarrow> json \<Rightarrow> jsstring" where
  "serialize ns gap ind JNull = lit ''null''"
| "serialize ns gap ind (JBool b) = (if b then lit ''true'' else lit ''false'')"
| "serialize ns gap ind (JNumber n) = ns n"
| "serialize ns gap ind (JString s) = QuoteJSONString s"
| "serialize ns gap ind (JArray vs) =
     wrap_parts gap ind ''['' '']'' (map (serialize ns gap (ind @ gap)) vs)"
| "serialize ns gap ind (JObject kvs) =
     wrap_parts gap ind ''{'' ''}''
       (map (\<lambda>(k, v). QuoteJSONString k @ lit '':'' @ (if gap = [] then [] else lit '' '')
                        @ serialize ns gap (ind @ gap) v) kvs)"

definition JSON_stringify :: "(jsstring \<Rightarrow> jsstring) \<Rightarrow> json \<Rightarrow> jsstring" where
  "JSON_stringify ns v = serialize ns [] [] v"

definition JSON_stringify_indent :: "(jsstring \<Rightarrow> jsstring) \<Rightarrow> nat \<Rightarrow> json \<Rightarrow> jsstring" where
  "JSON_stringify_indent ns n v = serialize ns (replicate (min n 10) 0x20) [] v"

section \<open>Capture arguments\<close>

text \<open>
  \<^verbatim>\<open>
  export function buildFfmpegArgs(filePath: string, input: string): string[] {
    const outputArgs = ["-ac", "1", "-ar", "16000", "-c:a", "pcm_s16le", filePath];
    return ["-y", "-f", "avfoundation", "-i", input, ...outputArgs];
  }
  \<close>
\<close>

definition buildFfmpegArgs :: "jsstring \<Rightarrow> jsstring \<Rightarrow> jsstring list" where
  "buildFfmpegArgs filePath input =
     (let outputArgs = [lit ''-ac'', lit ''1'', lit ''-ar'', lit ''16000'', lit ''-c:a'',
                        lit ''pcm_s16le'', filePath]
      in [lit ''-y'', lit ''-f'', lit ''avfoundation'', lit ''-i'', input] @ outputArgs)"

section \<open>The file system\<close>

text \<open>
  What the synchronous \<open>fs\<close> calls of the source see: a path holds nothing, a directory,
  or a regular file with its text and whether the process may read and write it;
  \<open>creatable\<close> says where a new file can be created (the parent directory exists and
  is writable). A file created by the process is readable and writable by it. The text
  of a file is what \<open>readFileSync(path, "utf-8")\<close> returns.
\<close>

datatype fnode = Dir | File (readable: bool) (writable: bool) (content: jsstring)

record fsys =
  nodes :: "jsstring \<Rightarrow> fnode option"
  creatable :: "jsstring \<Rightarrow> bool"

definition existsSync :: "fsys \<Rightarrow> jsstring \<Rightarrow> bool" where
  "existsSync fs p = (case nodes fs p of None \<Rightarrow> False | Some n \<Rightarrow> True)"

definition readFileSync :: "fsys \<Rightarrow> jsstring \<Rightarrow> js_error + jsstring" where
  "readFileSync fs p =
     (case nodes fs p of
        None \<Rightarrow> Inl (SystemError (lit ''ENOENT''))
      | Some Dir \<Rightarrow> Inl (SystemError (lit ''EISDIR''))
      | Some (File r w c) \<Rightarrow> if r then Inr c else Inl (SystemError (lit ''EACCES'')))"

definition writeFileSync :: "fsys \<Rightarrow> jsstring \<Rightarrow> jsstring \<Rightarrow> js_error + fsys" where
  "writeFileSync fs p d =
     (case nodes fs p of
        None \<Rightarrow>
          if creatable fs p then Inr (fs\<lparr>nodes := (nodes fs)(p \<mapsto> File True True d)\<rparr>)
          else Inl (SystemError (lit ''ENOENT''))
      | Some Dir \<Rightarrow> Inl (SystemError (lit ''EISDIR''))
      | Some (File r w c) \<Rightarrow>
          if w then Inr (fs\<lparr>nodes := (nodes fs)(p \<mapsto> File r w d)\<rparr>)
          else Inl (SystemError (lit ''EACCES'')))"

section \<open>Configuration\<close>

text \<open>
  \<^verbatim>\<open>
  const MODEL_OPTIONS = ["nvidia/parakeet-tdt-0.6b-v3", "openai/whisper-large-v3"] as const;
  type VoiceModel = (typeof MODEL_OPTIONS)[number];
  \<close>
  \<open>VoiceModel\<close> is a compile-time type; at run time a model is a string. A configuration
  is an object with the optional property \<open>model\<close>.
\<close>

definition MODEL_OPTIONS :: "jsstring list" where
  "MODEL_OPTIONS = [lit ''nvidia/parakeet-tdt-0.6b-v3'', lit ''openai/whisper-large-v3'']"

record config =
  model :: "jsstring option"

text \<open>
  Reading a property that no built-in prototype defines (\<open>model\<close>, \<open>text\<close>,
  \<open>transcription\<close>) from a parsed value: an object yields its own property, or
  \<open>undefined\<close> (here \<open>None\<close>); arrays, strings, numbers and booleans yield
  \<open>undefined\<close>; \<open>null\<close> throws a TypeError, and yields \<open>undefined\<close> under
  optional chaining (\<open>parsed?.model\<close>).
\<close>

definition get_prop :: "json \<Rightarrow> jsstring \<Rightarrow> js_error + json option" where
  "get_prop v k =
     (case v of
        JNull \<Rightarrow> Inl (TypeError (lit ''Cannot read properties of null''))
      | JObject kvs \<Rightarrow> Inr (map_of kvs k)
      | _ \<Rightarrow> Inr None)"

definition get_prop_opt :: "json \<Rightarrow> jsstring \<Rightarrow> json option" where
  "get_prop_opt v k = (case get_prop v k of Inl e \<Rightarrow> None | Inr r \<Rightarrow> r)"

text \<open>
  \<^verbatim>\<open>
  export function loadConfig(configPath: string = CONFIG_PATH): { model?: VoiceModel } {
    try {
      if (!existsSync(configPath)) return {};
      const raw = readFileSync(configPath, "utf-8");
      const parsed = JSON.parse(raw) as { model?: VoiceModel };
      if (parsed?.model && MODEL_OPTIONS.includes(parsed.model)) {
        return { model: parsed.model };
      }
    } catch {}
    return {};
  }
  \<close>
  \<open>MODEL_OPTIONS.includes(v)\<close> compares with SameValueZero, so it holds only for a string
  \<open>v\<close> equal to an element; for every other value the conjunction is false whatever the
  truthiness of \<open>v\<close>. A string is truthy when it is not empty. The result is
  \<open>js_error + config\<close>, with the \<open>catch\<close> written out at each call that can throw.
\<close>

definition accepted_model :: "json option \<Rightarrow> bool" where
  "accepted_model v =
     (case v of Some (JString m) \<Rightarrow> m \<noteq> [] \<and> m \<in> set MODEL_OPTIONS | _ \<Rightarrow> False)"

definition loadConfig :: "fsys \<Rightarrow> jsstring \<Rightarrow> js_error + config" where
  "loadConfig fs configPath =
     (if \<not> existsSync fs configPath then Inr \<lparr>model = None\<rparr>
      else
        (case readFileSync fs configPath of
           Inl e \<Rightarrow> Inr \<lparr>model = None\<rparr>
         | Inr raw \<Rightarrow>
             (case JSON_parse raw of
                Inl e \<Rightarrow> Inr \<lparr>model = None\<rparr>
              | Inr parsed \<Rightarrow>
                  if accepted_model (get_prop_opt parsed (lit ''model''))
                  then (case get_prop_opt parsed (lit ''model'') of
                          Some (JString m) \<Rightarrow> Inr \<lparr>model = Some m\<rparr>
                        | _ \<Rightarrow> Inr \<lparr>model = None\<rparr>)
                  else Inr \<lparr>model = None\<rparr>)))"

text \<open>
  \<^verbatim>\<open>
  export function saveConfig(config: { model?: VoiceModel }, configPath: string = CONFIG_PATH) {
    try {
      writeFileSync(configPath, JSON.stringify(config, null, 2));
    } catch {}
  }
  \<close>
  \<open>JSON.stringify\<close> leaves out a property whose value is \<open>undefined\<close>. A configuration
  holds no number, so the number formatter passed to the serializer is never applied.
\<close>

definition config_json :: "config \<Rightarrow> json" where
  "config_json c =
     (case model c of None \<Rightarrow> JObject [] | Some m \<Rightarrow> JObject [(lit ''model'', JString m)])"

definition saveConfig :: "config \<Rightarrow> jsstring \<Rightarrow> fsys \<Rightarrow> fsys" where
  "saveConfig cfg configPath fs =
     (case writeFileSync fs configPath (JSON_stringify_indent (\<lambda>n. n) 2 (config_json cfg)) of
        Inl e \<Rightarrow> fs
      | Inr fs' \<Rightarrow> fs')"

section \<open>Effects\<close>

text \<open>
  The calls a function makes to the world outside, in the order it makes them: what
  \<open>waitForFile\<close> and \<open>transcribeFile\<close> return beside their result.
\<close>

datatype form_value = FormText jsstring | FormBlob "8 word list" jsstring jsstring

record request =
  req_url :: jsstring
  req_method :: jsstring
  req_headers :: "(jsstring \<times> jsstring) list"
  req_body :: "(jsstring \<times> form_value) list"

datatype effect =
    ExistsSync jsstring
  | StatSync jsstring
  | Sleep nat
  | ReadFile jsstring
  | Fetch request
  | Notify jsstring jsstring
  | SetStatus jsstring jsstring
  | SetEditorText jsstring
  | UiInput jsstring jsstring
  | UiSelect jsstring "jsstring list"
  | Exec jsstring "jsstring list"
  | Mkdtemp jsstring
  | Spawn jsstring "jsstring list"
  | Kill nat jsstring

section \<open>Waiting for the recording\<close>

text \<open>
  \<^verbatim>\<open>
  export async function waitForFile(filePath: string, timeoutMs: number): Promise<boolean> {
    const start = Date.now();
    while (Date.now() - start < timeoutMs) {
      if (existsSync(filePath)) {
        try {
          const st = statSync(filePath);
          if (st.size > 0) return true;
        } catch {}
      }
      await new Promise((r) => setTimeout(r, 100));
    }
    return false;
  }
  \<close>
  The world of one call: \<open>clock0\<close> is the first \<open>Date.now()\<close>; \<open>observe t p\<close> is what a
  poll made at time \<open>t\<close> sees at path \<open>p\<close> (\<open>existsSync\<close> is false; or it is true and
  \<open>statSync\<close> throws; or it is true and \<open>statSync\<close> gives a size); \<open>late k\<close> is the
  time in milliseconds by which the \<open>k\<close>-th reading of the clock in the loop condition
  comes later than the earliest moment it could (time a poll takes, lateness of the
  timer). The clock is in whole milliseconds and does not run backwards, a timer does not
  fire early, and \<open>timeoutMs\<close> is a whole number.
\<close>

datatype probe = Absent | StatFails js_error | Size nat

record poll_world =
  clock0 :: int
  late :: "nat \<Rightarrow> nat"
  observe :: "int \<Rightarrow> jsstring \<Rightarrow> probe"

function wait_loop ::
  "poll_world \<Rightarrow> jsstring \<Rightarrow> int \<Rightarrow> int \<Rightarrow> nat \<Rightarrow> int \<Rightarrow> effect list
     \<Rightarrow> (js_error + bool) \<times> effect list" where
  "wait_loop w filePath timeoutMs start k now tr =
     (if now - start < timeoutMs then
        (case observe w now filePath of
           Absent \<Rightarrow>
             wait_loop w filePath timeoutMs start (Suc k) (now + 100 + int (late w (Suc k)))
               (tr @ [ExistsSync filePath, Sleep 100])
         | StatFails e \<Rightarrow>
             wait_loop w filePath timeoutMs start (Suc k) (now + 100 + int (late w (Suc k)))
               (tr @ [ExistsSync filePath, StatSync filePath, Sleep 100])
         | Size n \<Rightarrow>
             if n > 0 then (Inr True, tr @ [ExistsSync filePath, StatSync filePath])
             else
               wait_loop w filePath timeoutMs start (Suc k) (now + 100 + int (late w (Suc k)))
                 (tr @ [ExistsSync filePath, StatSync filePath, Sleep 100]))
      else (Inr False, tr))"
  by pat_completeness auto
termination
  by (relation "measure (\<lambda>(w, filePath, timeoutMs, start, k, now, tr). nat (timeoutMs - (now - start)))")
     auto

definition waitForFile :: "poll_world \<Rightarrow> jsstring \<Rightarrow> int \<Rightarrow> (js_error + bool) \<times> effect list" where
  "waitForFile w filePath timeoutMs =
     (let start = clock0 w
      in wait_loop w filePath timeoutMs start 0 (clock0 w + int (late w 0)) [])"

text \<open>The time at which the \<open>k\<close>-th poll is made, if the loop gets that far.\<close>

fun poll_time :: "poll_world \<Rightarrow> nat \<Rightarrow> int" where
  "poll_time w 0 = clock0 w + int (late w 0)"
| "poll_time w (Suc k) = poll_time w k + 100 + int (late w (Suc k))"

definition ready :: "probe \<Rightarrow> bool" where
  "ready pr = (case pr of Size n \<Rightarrow> n > 0 | _ \<Rightarrow> False)"

section \<open>Transcription\<close>

text \<open>
  The response of the transport, as far as the source reads it: \<open>res.ok\<close>,
  \<open>res.status\<close> (a natural number, as the status of a \<open>Response\<close> is),
  \<open>res.statusText\<close>, \<open>res.headers.get("content-type")\<close> (\<open>null\<close> is \<open>None\<close>) and
  \<open>await res.text()\<close>, which can reject. A transport returns a response or rejects.
\<close>

record response =
  ok :: bool
  status :: nat
  statusText :: jsstring
  content_type :: "jsstring option"
  body_text :: "js_error + jsstring"

type_synonym transport = "request \<Rightarrow> js_error + response"

record transcribe_params =
  tp_filePath :: jsstring
  tp_model :: jsstring
  tp_fetchImpl :: "transport option"
  tp_baseUrl :: "jsstring option"
  tp_apiKey :: "jsstring option"

text \<open>
  What a call of \<open>transcribeFile\<close> finds around it: the environment variables, the
  bytes \<open>readFileSync(filePath)\<close> returns (or the error it throws), the global
  \<open>fetch\<close>, and the platform's formatting of JSON numbers.
\<close>

record tworld =
  env :: "jsstring \<Rightarrow> jsstring option"
  readFileBytes :: "jsstring \<Rightarrow> js_error + 8 word list"
  global_fetch :: transport
  number_to_string :: "jsstring \<Rightarrow> jsstring"

text \<open>\<open>path.basename\<close> for POSIX paths: the last segment, trailing slashes dropped.\<close>

definition basename :: "jsstring \<Rightarrow> jsstring" where
  "basename p =
     rev (takeWhile (\<lambda>c. c \<noteq> 0x2F) (dropWhile (\<lambda>c. c = 0x2F) (rev p)))"

text \<open>
  \<^verbatim>\<open>
  const { filePath, model, fetchImpl = fetch,
          baseUrl = process.env.VENICE_API_BASE ?? "https://api.venice.ai/api/v1",
          apiKey = process.env.VENICE_API_KEY } = params;
  \<close>
  A default applies when the property is \<open>undefined\<close>.
\<close>

definition effective_fetchImpl :: "tworld \<Rightarrow> transcribe_params \<Rightarrow> transport" where
  "effective_fetchImpl w params =
     (case tp_fetchImpl params of None \<Rightarrow> global_fetch w | Some f \<Rightarrow> f)"

definition effective_baseUrl :: "tworld \<Rightarrow> transcribe_params \<Rightarrow> jsstring" where
  "effective_baseUrl w params =
     (case tp_baseUrl params of
        Some b \<Rightarrow> b
      | None \<Rightarrow>
          (case env w (lit ''VENICE_API_BASE'') of
             Some b \<Rightarrow> b
           | None \<Rightarrow> lit ''https://api.venice.ai/api/v1''))"

definition effective_apiKey :: "tworld \<Rightarrow> transcribe_params \<Rightarrow> jsstring option" where
  "effective_apiKey w params =
     (case tp_apiKey params of Some k \<Rightarrow> Some k | None \<Rightarrow> env w (lit ''VENICE_API_KEY''))"

text \<open>
  \<^verbatim>\<open>
  const form = new FormData();
  form.append("model", model);
  form.append("language", "en");
  form.append("prompt", "Technical, programming context. Preserve code identifiers, file paths, CLI flags, and library names when possible.");
  form.append("response_format", "json");
  form.append("timestamps", "false");
  form.append("file", new Blob([buf], { type: "audio/wav" }), basename(filePath));
  const url = `${baseUrl}/audio/transcriptions`;
  const res = await fetchImpl(url, { method: "POST",
    headers: { Authorization: `Bearer ${apiKey}` }, body: form });
  \<close>
\<close>

definition build_request ::
  "jsstring \<Rightarrow> jsstring \<Rightarrow> jsstring \<Rightarrow> jsstring \<Rightarrow> 8 word list \<Rightarrow> request" where
  "build_request baseUrl apiKey filePath modelId buf =
     \<lparr>req_url = baseUrl @ lit ''/audio/transcriptions'',
      req_method = lit ''POST'',
      req_headers = [(lit ''Authorization'', lit ''Bearer '' @ apiKey)],
      req_body =
        [(lit ''model'', FormText modelId),
         (lit ''language'', FormText (lit ''en'')),
         (lit ''prompt'', FormText (lit ''Technical, programming context. Preserve code identifiers, file paths, CLI flags, and library names when possible.'')),
         (lit ''response_format'', FormText (lit ''json'')),
         (lit ''timestamps'', FormText (lit ''false'')),
         (lit ''file'', FormBlob buf (lit ''audio/wav'') (basename filePath))]\<rparr>"

text \<open>
  \<^verbatim>\<open>
  try {
    const data = JSON.parse(body);
    if (typeof data.text === "string") return data.text;
    // Some APIs return {transcription: "..."}
    if (typeof data.transcription === "string") return data.transcription;
    return JSON.stringify(data);
  } catch {
    return body;
  }
  \<close>
  The body of the \<open>try\<close>, with what it throws, and the whole statement.
\<close>

definition json_body_try :: "(jsstring \<Rightarrow> jsstring) \<Rightarrow> jsstring \<Rightarrow> js_error + jsstring" where
  "json_body_try ns body =
     (case JSON_parse body of
        Inl e \<Rightarrow> Inl e
      | Inr data \<Rightarrow>
          (case get_prop data (lit ''text'') of
             Inl e \<Rightarrow> Inl e
           | Inr (Some (JString s)) \<Rightarrow> Inr s
           | Inr _ \<Rightarrow>
               (case get_prop data (lit ''transcription'') of
                  Inl e \<Rightarrow> Inl e
                | Inr (Some (JString s)) \<Rightarrow> Inr s
                | Inr _ \<Rightarrow> Inr (JSON_stringify ns data))))"

definition json_body :: "(jsstring \<Rightarrow> jsstring) \<Rightarrow> jsstring \<Rightarrow> jsstring" where
  "json_body ns body = (case json_body_try ns body of Inl e \<Rightarrow> body | Inr r \<Rightarrow> r)"

text \<open>
  \<^verbatim>\<open>
  if (!res.ok) {
    const errText = await res.text();
    throw new Error(`${res.status} ${res.statusText}: ${errText}`);
  }
  const ctype = res.headers.get("content-type") || "";
  const body = await res.text();
  if (ctype.includes("application/json")) { ... }
  return body;
  \<close>
\<close>

definition handle_response :: "(jsstring \<Rightarrow> jsstring) \<Rightarrow> response \<Rightarrow> js_error + jsstring" where
  "handle_response ns res =
     (if \<not> ok res then
        (case body_text res of
           Inl e \<Rightarrow> Inl e
         | Inr errText \<Rightarrow>
             Inl (Error (show_nat (status res) @ lit '' '' @ statusText res @ lit '': '' @ errText)))
      else
        (let ctype = (case content_type res of None \<Rightarrow> [] | Some c \<Rightarrow> c)
         in case body_text res of
              Inl e \<Rightarrow> Inl e
            | Inr body \<Rightarrow>
                if str_includes ctype (lit ''application/json'') then Inr (json_body ns body)
                else Inr body))"

text \<open>
  \<^verbatim>\<open>
  if (!apiKey || apiKey.trim() === "") {
    throw new Error("VENICE_API_KEY is not set");
  }
  const buf = readFileSync(filePath);
  \<close>
\<close>

definition transcribeFile ::
  "tworld \<Rightarrow> transcribe_params \<Rightarrow> (js_error + jsstring) \<times> effect list" where
  "transcribeFile w params =
     (let filePath = tp_filePath params;
          fetchImpl = effective_fetchImpl w params;
          baseUrl = effective_baseUrl w params
      in case effective_apiKey w params of
           None \<Rightarrow> (Inl (Error (lit ''VENICE_API_KEY is not set'')), [])
         | Some apiKey \<Rightarrow>
             if apiKey = [] \<or> trim apiKey = [] then
               (Inl (Error (lit ''VENICE_API_KEY is not set'')), [])
             else
               (case readFileBytes w filePath of
                  Inl e \<Rightarrow> (Inl e, [ReadFile filePath])
                | Inr buf \<Rightarrow>
                    (let req = build_request baseUrl apiKey filePath (tp_model params) buf
                     in case fetchImpl req of
                          Inl e \<Rightarrow> (Inl e, [ReadFile filePath, Fetch req])
                        | Inr res \<Rightarrow>
                            (handle_response (number_to_string w) res,
                             [ReadFile filePath, Fetch req]))))"

section \<open>The extension\<close>

text \<open>
  \<^verbatim>\<open>
  interface RecordingState {
    proc: ChildProcessWithoutNullStreams;
    filePath: string; logPath: string; input: string; startedAt: number;
  }
  \<close>
  A child process is named by its handle, its place in the list of the capture processes
  spawned so far. Of a process the source reads \<open>exitCode\<close>; \<open>running\<close> says that the
  process was started and has not exited, \<open>signalled\<close> that \<open>kill("SIGINT")\<close> reached
  it.
\<close>

record RecordingState =
  proc :: nat
  filePath :: jsstring
  logPath :: jsstring
  input :: jsstring
  startedAt :: int

record proc_info =
  running :: bool
  exitCode :: "int option"
  signalled :: bool

text \<open>
  The variables of the closure (\<open>recording\<close>, \<open>transcribing\<close>, \<open>ffmpegAvailable\<close>,
  \<open>preferredInput\<close>, \<open>preferredModel\<close>), the capture processes it has spawned, the home
  directory that fixes \<open>CONFIG_PATH\<close>, and the disk that holds the configuration file.
\<close>

record ext_state =
  recording :: "RecordingState option"
  transcribing :: bool
  ffmpegAvailable :: "bool option"
  preferredInput :: "jsstring option"
  preferredModel :: jsstring
  procs :: "proc_info list"
  homedir :: jsstring
  disk :: fsys

definition init_state :: "jsstring \<Rightarrow> fsys \<Rightarrow> ext_state" where
  "init_state home d =
     \<lparr>recording = None, transcribing = False, ffmpegAvailable = None, preferredInput = None,
      preferredModel = lit ''openai/whisper-large-v3'', procs = [], homedir = home, disk = d\<rparr>"

definition HOTKEY :: jsstring where
  "HOTKEY = lit ''ctrl+shift+r''"

definition STATUS_KEY :: jsstring where
  "STATUS_KEY = lit ''voice''"

text \<open>\<open>path.join\<close> of a normalized directory path and a relative path.\<close>

definition path_join :: "jsstring \<Rightarrow> jsstring \<Rightarrow> jsstring" where
  "path_join d n = d @ lit ''/'' @ n"

definition CONFIG_PATH :: "jsstring \<Rightarrow> jsstring" where
  "CONFIG_PATH home = path_join home (lit ''.pi/agent/extensions/voice-to-text.json'')"

text \<open>
  What the host and the operating system answer during one run of a handler. A handler
  runs to its end before the next event is taken: all operations are invoked in response
  to discrete triggers and run to completion, suspension points included. The calls to
  the host (\<open>pi.exec\<close>, \<open>ctx.ui\<close>) are taken not to throw.
\<close>

datatype spawn_result = Started | FailedToStart int jsstring | SpawnThrows js_error

record host_io =
  hasUI :: bool
  which_code :: int
  input_answer :: "jsstring option"
  select_answer :: "jsstring option"
  tmpdir :: jsstring
  mkdtemp_result :: "js_error + jsstring"
  spawn_outcome :: spawn_result
  clock_now :: int
  log_at_stop :: "js_error + jsstring"
  exit_in_wait :: "int option option"
  polls :: poll_world
  log_after_wait :: "js_error + jsstring"
  tw :: tworld

definition falsy :: "jsstring option \<Rightarrow> bool" where
  "falsy v = (case v of None \<Rightarrow> True | Some x \<Rightarrow> x = [])"

definition err_message :: "js_error \<Rightarrow> jsstring" where
  "err_message e =
     (case e of Error m \<Rightarrow> m | TypeError m \<Rightarrow> m | SyntaxError m \<Rightarrow> m | SystemError m \<Rightarrow> m)"

text \<open>
  \<^verbatim>\<open>
  async function ensureFfmpeg(ctx: any): Promise<boolean> {
    if (ffmpegAvailable !== null) return ffmpegAvailable;
    const result = await pi.exec("which", ["ffmpeg"]);
    ffmpegAvailable = result.code === 0;
    if (!ffmpegAvailable) {
      ctx.ui.notify("ffmpeg not found. Install ffmpeg to enable voice capture.", "error");
    }
    return ffmpegAvailable;
  }
  \<close>
\<close>

definition ensureFfmpeg :: "host_io \<Rightarrow> ext_state \<Rightarrow> bool \<times> ext_state \<times> effect list" where
  "ensureFfmpeg io s =
     (case ffmpegAvailable s of
        Some b \<Rightarrow> (b, s, [])
      | None \<Rightarrow>
          (which_code io = 0,
           s\<lparr>ffmpegAvailable := Some (which_code io = 0)\<rparr>,
           [Exec (lit ''which'') [lit ''ffmpeg'']]
           @ (if which_code io = 0 then []
              else [Notify (lit ''ffmpeg not found. Install ffmpeg to enable voice capture.'')
                      (lit ''error'')])))"

text \<open>
  \<^verbatim>\<open>
  const inputOverride = process.env.PI_VOICE_INPUT;
  let input = inputOverride ?? preferredInput;
  if (!inputOverride && !input && ctx.hasUI) {
    input = await ctx.ui.input("Select microphone",
      "Enter avfoundation input (e.g. :0 or 0:0). Default is :0");
    if (!input) input = ":0";
  }
  if (!input) {
    input = ":0";
  }
  \<close>
\<close>

definition prompts_for_input :: "host_io \<Rightarrow> ext_state \<Rightarrow> bool" where
  "prompts_for_input io s =
     (let inputOverride = env (tw io) (lit ''PI_VOICE_INPUT'');
          input0 = (case inputOverride of Some v \<Rightarrow> Some v | None \<Rightarrow> preferredInput s)
      in falsy inputOverride \<and> falsy input0 \<and> hasUI io)"

definition choose_input :: "host_io \<Rightarrow> ext_state \<Rightarrow> jsstring" where
  "choose_input io s =
     (let inputOverride = env (tw io) (lit ''PI_VOICE_INPUT'');
          input0 = (case inputOverride of Some v \<Rightarrow> Some v | None \<Rightarrow> preferredInput s);
          input1 = (if prompts_for_input io s then input_answer io else input0)
      in case input1 of None \<Rightarrow> lit '':0'' | Some v \<Rightarrow> if v = [] then lit '':0'' else v)"

text \<open>
  \<^verbatim>\<open>
  async function startRecording(ctx: any) {
    if (recording || transcribing) return;
    const ok = await ensureFfmpeg(ctx);
    if (!ok) return;
    ...
    const dir = mkdtempSync(join(tmpdir(), "pi-voice-"));
    const filePath = join(dir, "recording.wav");
    const logPath = join(dir, "ffmpeg.log");
    const args = buildFfmpegArgs(filePath, input);
    const proc = spawn("ffmpeg", args, { stdio: ["ignore", "ignore", "pipe"] });
    proc.stderr.on("data", ...);
    proc.on("error", (err) => {
      ctx.ui.notify(`ffmpeg failed to start: ${err.message}`, "error");
    });
    recording = { proc, filePath, logPath, input, startedAt: Date.now() };
    preferredInput = input;
    ctx.ui.setStatus(STATUS_KEY, `<mic> Recording... (${preferredModel}) (Ctrl+Shift+R to stop)`);
    ctx.ui.notify(`Recording started (input: ${input})`, "info");
    if (!process.env.PI_VOICE_INPUT) {
      ctx.ui.notify("Tip: set PI_VOICE_INPUT to avoid the prompt next time", "info");
    }
    setTimeout(() => { ... }, 300);
    proc.on("exit", () => { ... });
  }
  \<close>
  \<open>mkdtempSync\<close> and \<open>spawn\<close> can throw, and then the promise of
  \<open>startRecording\<close> rejects: the third component of the result. A process that fails
  to start (\<open>FailedToStart\<close>: the program is not found or may not be executed) has a
  negative \<open>exitCode\<close>, emits \<open>error\<close> after the synchronous part and never emits
  \<open>exit\<close>. \<open>session_started\<close> is the assignment of \<open>recording\<close> and
  \<open>preferredInput\<close>, \<open>start_notices\<close> the status and the notifications after it. The
  listener on \<open>stderr\<close> only appends to the log file; what the log holds when it is read
  is an answer of the host. The microphone sign in the status text is U+1F399.
\<close>

definition session_started ::
  "host_io \<Rightarrow> ext_state \<Rightarrow> jsstring \<Rightarrow> jsstring \<Rightarrow> proc_info \<Rightarrow> ext_state" where
  "session_started io s inp dir p =
     s\<lparr>procs := procs s @ [p],
       recording := Some \<lparr>proc = length (procs s), filePath = path_join dir (lit ''recording.wav''),
                           logPath = path_join dir (lit ''ffmpeg.log''), input = inp,
                           startedAt = clock_now io\<rparr>,
       preferredInput := Some inp\<rparr>"

definition start_notices :: "host_io \<Rightarrow> ext_state \<Rightarrow> jsstring \<Rightarrow> effect list" where
  "start_notices io s inp =
     [SetStatus STATUS_KEY
        ([0xD83C, 0xDF99] @ lit '' Recording... ('' @ preferredModel s
         @ lit '') (Ctrl+Shift+R to stop)''),
      Notify (lit ''Recording started (input: '' @ inp @ lit '')'') (lit ''info'')]
     @ (if falsy (env (tw io) (lit ''PI_VOICE_INPUT''))
        then [Notify (lit ''Tip: set PI_VOICE_INPUT to avoid the prompt next time'') (lit ''info'')]
        else [])"

definition startRecording ::
  "host_io \<Rightarrow> ext_state \<Rightarrow> ext_state \<times> effect list \<times> js_error option" where
  "startRecording io s =
     (if recording s \<noteq> None \<or> transcribing s then (s, [], None)
      else
        (case ensureFfmpeg io s of
           (avail, s1, e1) \<Rightarrow>
             if \<not> avail then (s1, e1, None)
             else
               (let inp = choose_input io s1;
                    e2 = (if prompts_for_input io s1
                          then [UiInput (lit ''Select microphone'')
                                  (lit ''Enter avfoundation input (e.g. :0 or 0:0). Default is :0'')]
                          else []);
                    e3 = [Mkdtemp (path_join (tmpdir io) (lit ''pi-voice-''))]
                in case mkdtemp_result io of
                     Inl err \<Rightarrow> (s1, e1 @ e2 @ e3, Some err)
                   | Inr dir \<Rightarrow>
                       (let args = buildFfmpegArgs (path_join dir (lit ''recording.wav'')) inp;
                            e4 = [Spawn (lit ''ffmpeg'') args]
                        in case spawn_outcome io of
                             SpawnThrows err \<Rightarrow> (s1, e1 @ e2 @ e3 @ e4, Some err)
                           | Started \<Rightarrow>
                               (let s2 = session_started io s1 inp dir
                                           \<lparr>running = True, exitCode = None, signalled = False\<rparr>
                                in (s2, e1 @ e2 @ e3 @ e4 @ start_notices io s2 inp, None))
                           | FailedToStart c m \<Rightarrow>
                               (let s2 = session_started io s1 inp dir
                                           \<lparr>running = False, exitCode = Some c, signalled = False\<rparr>
                                in (s2,
                                    e1 @ e2 @ e3 @ e4 @ start_notices io s2 inp
                                    @ [Notify (lit ''ffmpeg failed to start: '' @ m) (lit ''error'')],
                                    None))))))"

text \<open>
  \<^verbatim>\<open>
  proc.on("exit", () => {
    // If the process exits unexpectedly, clear state
    if (recording?.proc === proc) {
      recording = null;
      ctx.ui.setStatus(STATUS_KEY, "");
    }
  });
  \<close>
  \<open>on_exit h\<close> is the listener of the process with handle \<open>h\<close>; \<open>process_exits\<close> is
  the event: a running process exits with a code (\<open>null\<close> when a signal ended it) and
  its listener runs.
\<close>

definition on_exit :: "nat \<Rightarrow> ext_state \<Rightarrow> ext_state \<times> effect list" where
  "on_exit h s =
     (case recording s of
        None \<Rightarrow> (s, [])
      | Some r \<Rightarrow>
          if proc r = h then (s\<lparr>recording := None\<rparr>, [SetStatus STATUS_KEY []])
          else (s, []))"

definition process_exits :: "nat \<Rightarrow> int option \<Rightarrow> ext_state \<Rightarrow> ext_state \<times> effect list" where
  "process_exits h code s =
     (if h < length (procs s) \<and> running (procs s ! h) then
        on_exit h (s\<lparr>procs := (procs s)[h := (procs s ! h)\<lparr>running := False, exitCode := code\<rparr>]\<rparr>)
      else (s, []))"

text \<open>\<open>proc.kill("SIGINT")\<close>: the signal reaches a running process.\<close>

definition kill_proc :: "nat \<Rightarrow> ext_state \<Rightarrow> ext_state" where
  "kill_proc h s =
     (if h < length (procs s) \<and> running (procs s ! h)
      then s\<lparr>procs := (procs s)[h := (procs s ! h)\<lparr>signalled := True\<rparr>]\<rparr>
      else s)"

text \<open>
  \<^verbatim>\<open>
  setTimeout(() => {
    if (proc.exitCode !== null) {
      let logText = "";
      try { logText = readFileSync(logPath, "utf-8"); } catch {}
      const msg = logText?.trim()
        ? `ffmpeg exited early (input: ${input}): ${logText}`
        : `ffmpeg exited early (input: ${input}). Check mic permissions or input device.`;
      ctx.ui.notify(msg, "error");
    }
  }, 300);
  \<close>
\<close>

definition early_exit_check :: "nat \<Rightarrow> jsstring \<Rightarrow> js_error + jsstring \<Rightarrow> ext_state \<Rightarrow> effect list" where
  "early_exit_check h inp logRead s =
     (if h < length (procs s) \<and> exitCode (procs s ! h) \<noteq> None then
        (let logText = (case logRead of Inl e \<Rightarrow> [] | Inr t \<Rightarrow> t)
         in [Notify
               (if trim logText \<noteq> []
                then lit ''ffmpeg exited early (input: '' @ inp @ lit ''): '' @ logText
                else lit ''ffmpeg exited early (input: '' @ inp
                     @ lit ''). Check mic permissions or input device.'')
               (lit ''error'')])
      else [])"

text \<open>
  \<^verbatim>\<open>
  try {
    const ready = await waitForFile(filePath, 5000);
    if (!ready) {
      let logText = "";
      try { logText = readFileSync(logPath, "utf-8"); } catch {}
      const hint = logText ? ` ffmpeg log saved at ${logPath}` : "";
      ctx.ui.notify(
        `Recording file was not created. Check mic permissions or input device.${hint}`, "error");
      return;
    }
    const text = await transcribeFile({ filePath, model: preferredModel });
    if (text && text.trim()) {
      ctx.ui.setEditorText(text.trim());
      ctx.ui.notify("Transcription loaded into editor", "info");
    } else {
      ctx.ui.notify("Transcription was empty", "warning");
    }
  } catch (err: any) {
    ctx.ui.notify(`Transcription failed: ${err?.message ?? String(err)}`, "error");
  }
  \<close>
\<close>

definition transcribe_recording :: "host_io \<Rightarrow> RecordingState \<Rightarrow> jsstring \<Rightarrow> effect list" where
  "transcribe_recording io r modelId =
     (case waitForFile (polls io) (filePath r) 5000 of
        (Inl err, ew) \<Rightarrow>
          ew @ [Notify (lit ''Transcription failed: '' @ err_message err) (lit ''error'')]
      | (Inr isReady, ew) \<Rightarrow>
          if \<not> isReady then
            (let logText = (case log_after_wait io of Inl e \<Rightarrow> [] | Inr t \<Rightarrow> t);
                 hint = (if logText \<noteq> [] then lit '' ffmpeg log saved at '' @ logPath r else [])
             in ew @ [Notify
                  (lit ''Recording file was not created. Check mic permissions or input device.''
                   @ hint)
                  (lit ''error'')])
          else
            (case transcribeFile (tw io)
                    \<lparr>tp_filePath = filePath r, tp_model = modelId, tp_fetchImpl = None,
                     tp_baseUrl = None, tp_apiKey = None\<rparr> of
               (Inl err, et) \<Rightarrow>
                 ew @ et @ [Notify (lit ''Transcription failed: '' @ err_message err) (lit ''error'')]
             | (Inr txt, et) \<Rightarrow>
                 if trim txt \<noteq> [] then
                   ew @ et @ [SetEditorText (trim txt),
                              Notify (lit ''Transcription loaded into editor'') (lit ''info'')]
                 else ew @ et @ [Notify (lit ''Transcription was empty'') (lit ''warning'')]))"

text \<open>
  \<^verbatim>\<open>
  async function stopRecording(ctx: any) {
    if (!recording || transcribing) return;
    const { proc, filePath, logPath, input } = recording;
    recording = null;
    ctx.ui.setStatus(STATUS_KEY, "<hourglass> Processing audio...");
    try {
      const st = proc.exitCode;
      if (typeof st === "number" && st !== 0) {
        const logText = readFileSync(logPath, "utf-8");
        if (logText?.trim()) {
          ctx.ui.notify(`ffmpeg error (input: ${input}): ${logText}`, "error");
        }
      }
    } catch {}
    try { proc.kill("SIGINT"); } catch {}
    await new Promise<void>((resolve) => {
      proc.on("exit", () => resolve());
      setTimeout(() => resolve(), 2000);
    });
    transcribing = true;
    try { ... } catch (err: any) { ... } finally {
      transcribing = false;
      ctx.ui.setStatus(STATUS_KEY, "");
    }
  }
  \<close>
  \<open>exit_in_wait\<close> says whether the process exits during the wait of at most two
  seconds, and with which code. The hourglass in the status text is U+23F3.
\<close>

definition stopRecording ::
  "host_io \<Rightarrow> ext_state \<Rightarrow> ext_state \<times> effect list \<times> js_error option" where
  "stopRecording io s =
     (case recording s of
        None \<Rightarrow> (s, [], None)
      | Some r \<Rightarrow>
          if transcribing s then (s, [], None)
          else
            (let s1 = s\<lparr>recording := None\<rparr>;
                 e1 = [SetStatus STATUS_KEY ([0x23F3] @ lit '' Processing audio...'')];
                 st = (if proc r < length (procs s1) then exitCode (procs s1 ! proc r) else None);
                 e2 = (case st of
                         None \<Rightarrow> []
                       | Some c \<Rightarrow>
                           if c \<noteq> 0 then
                             (case log_at_stop io of
                                Inl e \<Rightarrow> []
                              | Inr logText \<Rightarrow>
                                  if trim logText \<noteq> [] then
                                    [Notify (lit ''ffmpeg error (input: '' @ input r @ lit ''): ''
                                             @ logText) (lit ''error'')]
                                  else [])
                           else []);
                 s2 = kill_proc (proc r) s1;
                 e3 = [Kill (proc r) (lit ''SIGINT'')]
             in case (case exit_in_wait io of
                        None \<Rightarrow> (s2, [])
                      | Some code \<Rightarrow> process_exits (proc r) code s2) of
                  (s3, e4) \<Rightarrow>
                    (let s4 = s3\<lparr>transcribing := True\<rparr>;
                         e5 = transcribe_recording io r (preferredModel s4);
                         s5 = s4\<lparr>transcribing := False\<rparr>
                     in (s5, e1 @ e2 @ e3 @ e4 @ e5 @ [SetStatus STATUS_KEY []], None))))"

text \<open>
  \<^verbatim>\<open>
  pi.registerShortcut(HOTKEY, {
    description: "Toggle voice recording (transcribe to editor)",
    handler: async (ctx) => {
      if (!ctx.hasUI) return;
      if (recording) { await stopRecording(ctx); } else { await startRecording(ctx); }
    },
  });
  \<close>
\<close>

definition toggle :: "host_io \<Rightarrow> ext_state \<Rightarrow> ext_state \<times> effect list \<times> js_error option" where
  "toggle io s = (if recording s \<noteq> None then stopRecording io s else startRecording io s)"

definition shortcut_handler ::
  "host_io \<Rightarrow> ext_state \<Rightarrow> ext_state \<times> effect list \<times> js_error option" where
  "shortcut_handler io s = (if \<not> hasUI io then (s, [], None) else toggle io s)"

text \<open>
  \<open>toLowerCase\<close> on the letters A to Z. No code unit outside ASCII is mapped to an ASCII
  letter other than k, so the comparison with \<open>"model"\<close> is the source's.
\<close>

definition toLowerCase :: "jsstring \<Rightarrow> jsstring" where
  "toLowerCase s = map (\<lambda>c. if 0x41 \<le> c \<and> c \<le> 0x5A then c + 0x20 else c) s"

text \<open>\<open>selected.replace(/^\<bullet>\s*/, "")\<close>: a leading U+2022 and the white space after it.\<close>

definition strip_bullet :: "jsstring \<Rightarrow> jsstring" where
  "strip_bullet s =
     (case s of [] \<Rightarrow> [] | c # cs \<Rightarrow> if c = 0x2022 then dropWhile is_js_space cs else s)"

text \<open>
  \<^verbatim>\<open>
  pi.registerCommand("voice", {
    description: "Toggle voice recording (transcribe to editor)",
    handler: async (args, ctx) => {
      if (!ctx.hasUI) {
        ctx.ui.notify("voice requires interactive mode", "error");
        return;
      }
      const trimmed = (args || "").trim();
      if (trimmed.toLowerCase() === "model") {
        const selected = await ctx.ui.select("Select voice model",
          MODEL_OPTIONS.map((m) => (m === preferredModel ? `<bullet> ${m}` : m)));
        if (selected) {
          const normalized = selected.replace(/^<bullet>\s*/, "");
          if (MODEL_OPTIONS.includes(normalized as VoiceModel)) {
            preferredModel = normalized as VoiceModel;
            saveConfig({ model: preferredModel });
            ctx.ui.notify(`Voice model set to ${preferredModel}`, "info");
          } else {
            ctx.ui.notify("Invalid model selection", "error");
          }
        }
        return;
      }
      if (recording) { await stopRecording(ctx); } else { await startRecording(ctx); }
    },
  });
  \<close>
\<close>

definition select_model :: "host_io \<Rightarrow> ext_state \<Rightarrow> ext_state \<times> effect list \<times> js_error option" where
  "select_model io s =
     (let e1 = [UiSelect (lit ''Select voice model'')
                  (map (\<lambda>m. if m = preferredModel s then [0x2022] @ lit '' '' @ m else m)
                     MODEL_OPTIONS)]
      in if falsy (select_answer io) then (s, e1, None)
         else
           (let normalized = strip_bullet (case select_answer io of None \<Rightarrow> [] | Some v \<Rightarrow> v)
            in if normalized \<in> set MODEL_OPTIONS then
                 (s\<lparr>preferredModel := normalized,
                     disk := saveConfig \<lparr>model = Some normalized\<rparr> (CONFIG_PATH (homedir s)) (disk s)\<rparr>,
                  e1 @ [Notify (lit ''Voice model set to '' @ normalized) (lit ''info'')],
                  None)
               else (s, e1 @ [Notify (lit ''Invalid model selection'') (lit ''error'')], None)))"

definition command_handler ::
  "jsstring option \<Rightarrow> host_io \<Rightarrow> ext_state \<Rightarrow> ext_state \<times> effect list \<times> js_error option" where
  "command_handler args io s =
     (if \<not> hasUI io then
        (s, [Notify (lit ''voice requires interactive mode'') (lit ''error'')], None)
      else
        (let trimmed = trim (case args of None \<Rightarrow> [] | Some a \<Rightarrow> a)
         in if toLowerCase trimmed = lit ''model'' then select_model io s
            else toggle io s))"





section \<open>Notions and example worlds of the properties\<close>

text \<open>Worlds for the examples: a transport that answers every request with one response.\<close>

definition plain_response :: "bool \<Rightarrow> nat \<Rightarrow> string \<Rightarrow> string \<Rightarrow> jsstring \<Rightarrow> response" where
  "plain_response success st stt ct b =
     \<lparr>ok = success, status = st, statusText = lit stt, content_type = Some (lit ct),
      body_text = Inr b\<rparr>"

definition demo_world :: "response \<Rightarrow> tworld" where
  "demo_world res =
     \<lparr>env = (\<lambda>v. None), readFileBytes = (\<lambda>p. Inr [0x78]),
      global_fetch = (\<lambda>req. Inr res), number_to_string = (\<lambda>n. n)\<rparr>"

definition demo_params :: "string option \<Rightarrow> transcribe_params" where
  "demo_params k =
     \<lparr>tp_filePath = lit ''/tmp/pi-voice/recording.wav'',
      tp_model = lit ''openai/whisper-large-v3'',
      tp_fetchImpl = None, tp_baseUrl = Some (lit ''http://example''),
      tp_apiKey = map_option lit k\<rparr>"

text \<open>
  The text a successful response stands for: with a content type that contains
  \<open>application/json\<close> and a body that parses to a value other than \<open>null\<close>, the string
  property \<open>text\<close>, else the string property \<open>transcription\<close>, else the value serialized
  again; in every other case the body as it is.
\<close>

definition expected_transcript ::
  "(jsstring \<Rightarrow> jsstring) \<Rightarrow> jsstring option \<Rightarrow> jsstring \<Rightarrow> jsstring" where
  "expected_transcript ns ctype body =
     (if str_includes (case ctype of None \<Rightarrow> [] | Some c \<Rightarrow> c) (lit ''application/json'')
      then (case JSON_parse body of
              Inl e \<Rightarrow> body
            | Inr data \<Rightarrow>
                if data = JNull then body
                else (case get_prop_opt data (lit ''text'') of
                        Some (JString s) \<Rightarrow> s
                      | _ \<Rightarrow>
                        (case get_prop_opt data (lit ''transcription'') of
                           Some (JString s) \<Rightarrow> s
                         | _ \<Rightarrow> JSON_stringify ns data)))
      else body)"

definition demo_request :: request where
  "demo_request =
     build_request (lit ''http://example'') (lit ''key'') (lit ''/tmp/pi-voice/recording.wav'')
       (lit ''openai/whisper-large-v3'') [0x78]"

definition treat_errors_as_absent :: "poll_world \<Rightarrow> poll_world" where
  "treat_errors_as_absent w =
     w\<lparr>observe := (\<lambda>t p. case observe w t p of StatFails e \<Rightarrow> Absent | r \<Rightarrow> r)\<rparr>"

definition demo_polls :: poll_world where
  "demo_polls =
     \<lparr>clock0 = 1000, late = (\<lambda>k. 0),
      observe = (\<lambda>t p. if 1150 \<le> t then Size 1
                       else if 1050 \<le> t then StatFails (SystemError (lit ''EBUSY''))
                       else Absent)\<rparr>"

definition empty_polls :: poll_world where
  "empty_polls = \<lparr>clock0 = 1000, late = (\<lambda>k. 3), observe = (\<lambda>t p. Absent)\<rparr>"

definition present_polls :: poll_world where
  "present_polls = \<lparr>clock0 = 1000, late = (\<lambda>k. 0), observe = (\<lambda>t p. Size 5)\<rparr>"

definition config_fs :: "jsstring \<Rightarrow> jsstring \<Rightarrow> fsys" where
  "config_fs path jtext =
     \<lparr>nodes = (\<lambda>p. if p = path then Some (File True True jtext) else None),
      creatable = (\<lambda>p. False)\<rparr>"

definition locked_fs :: fsys where
  "locked_fs = \<lparr>nodes = (\<lambda>p. None), creatable = (\<lambda>p. False)\<rparr>"

definition fresh_fs :: fsys where
  "fresh_fs = \<lparr>nodes = (\<lambda>p. None), creatable = (\<lambda>p. True)\<rparr>"

definition empty_config :: config where
  "empty_config = \<lparr>model = None\<rparr>"

definition unreadable_fs :: "jsstring \<Rightarrow> fsys" where
  "unreadable_fs path =
     \<lparr>nodes = (\<lambda>p. if p = path then Some (File False True []) else None),
      creatable = (\<lambda>p. False)\<rparr>"


definition demo_host :: host_io where
  "demo_host =
     \<lparr>hasUI = True, which_code = 0, input_answer = Some (lit '':1''), select_answer = None,
      tmpdir = lit ''/tmp'', mkdtemp_result = Inr (lit ''/tmp/pi-voice-abc''),
      spawn_outcome = Started, clock_now = 1000,
      log_at_stop = Inl (SystemError (lit ''ENOENT'')), exit_in_wait = Some None,
      polls = demo_polls, log_after_wait = Inl (SystemError (lit ''ENOENT'')),
      tw = demo_world (plain_response True 200 ''OK'' ''application/json'' (lit ''{}''))\<rparr>"

definition headless_host :: host_io where
  "headless_host = demo_host\<lparr>hasUI := False\<rparr>"

definition recording_state :: ext_state where
  "recording_state = fst (shortcut_handler demo_host (init_state (lit ''/home/u'') fresh_fs))"


section \<open>Properties\<close>

subsection \<open>Capture arguments\<close>

text \<open>
  C1. For every output path P and input device D, \<open>buildFfmpegArgs P D\<close> is exactly the
  twelve-element list -y, -f, avfoundation, -i, D, -ac, 1, -ar, 16000, -c:a, pcm_s16le, P.
  The function is a HOL function of its two arguments only, so it is deterministic and
  reads no other state.
\<close>

theorem buildFfmpegArgs_exact:
  "buildFfmpegArgs P D =
     [lit ''-y'', lit ''-f'', lit ''avfoundation'', lit ''-i'', D,
      lit ''-ac'', lit ''1'', lit ''-ar'', lit ''16000'', lit ''-c:a'', lit ''pcm_s16le'', P]"
  by (simp add: buildFfmpegArgs_def)

subsection \<open>Transcription\<close>

lemma trim_Nil: "trim [] = []"
  by (simp add: trim_def)

lemma transcribeFile_response:
  assumes "effective_apiKey w params = Some key" and "trim key \<noteq> []"
    and "readFileBytes w (tp_filePath params) = Inr buf"
    and "effective_fetchImpl w params
           (build_request (effective_baseUrl w params) key (tp_filePath params)
              (tp_model params) buf) = Inr res"
  shows "transcribeFile w params
           = (handle_response (number_to_string w) res,
              [ReadFile (tp_filePath params),
               Fetch (build_request (effective_baseUrl w params) key (tp_filePath params)
                        (tp_model params) buf)])"
proof -
  from assms(2) have "key \<noteq> []" by (auto simp: trim_Nil)
  with assms show ?thesis by (simp add: transcribeFile_def Let_def)
qed

lemma transcribeFile_fetch:
  assumes "Fetch req \<in> set (snd (transcribeFile w params))"
  shows "\<exists>key buf. effective_apiKey w params = Some key \<and> trim key \<noteq> []
           \<and> readFileBytes w (tp_filePath params) = Inr buf
           \<and> req = build_request (effective_baseUrl w params) key (tp_filePath params)
                        (tp_model params) buf"
  using assms
  by (auto simp: transcribeFile_def Let_def split: option.splits if_splits sum.splits)

lemma transcribeFile_answer:
  assumes "Fetch req \<in> set (snd (transcribeFile w params))"
    and "effective_fetchImpl w params req = Inr res"
  shows "fst (transcribeFile w params) = handle_response (number_to_string w) res"
proof -
  from transcribeFile_fetch [OF assms(1)] obtain key buf where
    k: "effective_apiKey w params = Some key" "trim key \<noteq> []"
      "readFileBytes w (tp_filePath params) = Inr buf"
      "req = build_request (effective_baseUrl w params) key (tp_filePath params)
               (tp_model params) buf"
    by blast
  from assms(2) k(4) have "effective_fetchImpl w params
           (build_request (effective_baseUrl w params) key (tp_filePath params)
              (tp_model params) buf) = Inr res" by simp
  from transcribeFile_response [OF k(1-3) this] show ?thesis by simp
qed

lemma json_body_expected:
  "json_body ns body = expected_transcript ns (Some (lit ''application/json'')) body"
proof -
  have inc: "str_includes (lit ''application/json'') (lit ''application/json'')"
    by code_simp
  show ?thesis
    by (simp add: expected_transcript_def inc json_body_def json_body_try_def get_prop_opt_def
          get_prop_def split: sum.splits json.splits option.splits)
qed

lemma demo_key: "effective_apiKey (demo_world r) (demo_params (Some ''key'')) = Some (lit ''key'')"
  by (simp add: effective_apiKey_def demo_params_def)

lemma demo_trim: "trim (lit ''key'') \<noteq> []"
  by (simp add: trim_def lit_def is_js_space_def)

lemma demo_read: "readFileBytes (demo_world r) (tp_filePath (demo_params k)) = Inr [0x78]"
  by (simp add: demo_world_def)

lemma demo_fetch: "effective_fetchImpl (demo_world r) (demo_params k) req = Inr r"
  by (simp add: effective_fetchImpl_def demo_world_def demo_params_def)

lemma demo_trace:
  "Fetch demo_request \<in> set (snd (transcribeFile (demo_world r) (demo_params (Some ''key''))))"
proof -
  have "demo_request
      = build_request (effective_baseUrl (demo_world r) (demo_params (Some ''key''))) (lit ''key'')
          (tp_filePath (demo_params (Some ''key''))) (tp_model (demo_params (Some ''key'')))
          [0x78]"
    by (simp add: demo_request_def effective_baseUrl_def demo_params_def)
  then show ?thesis
    by (simp add: transcribeFile_response [OF demo_key demo_trim demo_read demo_fetch])
qed

text \<open>
  C2. When the API key in effect (the parameter, else the environment variable
  VENICE_API_KEY) is missing, or is empty after trimming, \<open>transcribeFile\<close> fails with
  the error "VENICE_API_KEY is not set" and has made no call to the outside: the list of
  its effects is empty, so the file was not read and the transport was not invoked.
\<close>

theorem transcribeFile_missing_key:
  assumes "effective_apiKey w params = None
           \<or> (\<exists>k. effective_apiKey w params = Some k \<and> trim k = [])"
  shows "transcribeFile w params = (Inl (Error (lit ''VENICE_API_KEY is not set'')), [])"
  using assms by (auto simp: transcribeFile_def Let_def)

theorem transcribeFile_missing_key_witness:
  "transcribeFile (demo_world (plain_response True 200 ''OK'' ''application/json'' (lit ''{}'')))
     (demo_params (Some ''   ''))
   = (Inl (Error (lit ''VENICE_API_KEY is not set'')), [])
   \<and> transcribeFile (demo_world (plain_response True 200 ''OK'' ''application/json'' (lit ''{}'')))
     (demo_params None)
   = (Inl (Error (lit ''VENICE_API_KEY is not set'')), [])"
proof -
  have a: "effective_apiKey (demo_world r) (demo_params (Some ''   '')) = Some (lit ''   '')" for r
    by (simp add: effective_apiKey_def demo_params_def)
  have b: "trim (lit ''   '') = []"
    by (simp add: trim_def lit_def is_js_space_def)
  have c: "effective_apiKey (demo_world r) (demo_params None) = None" for r
    by (simp add: effective_apiKey_def demo_params_def demo_world_def)
  show ?thesis
    using transcribeFile_missing_key [of "demo_world (plain_response True 200 ''OK'' ''application/json'' (lit ''{}''))" "demo_params (Some ''   '')"]
      transcribeFile_missing_key [of "demo_world (plain_response True 200 ''OK'' ''application/json'' (lit ''{}''))" "demo_params None"]
      a b c by simp
qed

text \<open>
  C3. When the transport is invoked (its call is among the effects of
  \<open>transcribeFile\<close>) and returns a response that is not ok, with status S, status
  text T and body B, \<open>transcribeFile\<close> fails with the error whose message is S in
  decimal, a space, T, a colon, a space, B.
\<close>

theorem transcribeFile_http_error:
  assumes "Fetch req \<in> set (snd (transcribeFile w params))"
    and "effective_fetchImpl w params req = Inr res"
    and "\<not> ok res" and "body_text res = Inr B"
  shows "fst (transcribeFile w params)
           = Inl (Error (show_nat (status res) @ lit '' '' @ statusText res @ lit '': '' @ B))"
  using assms(3,4) by (simp add: transcribeFile_answer [OF assms(1,2)] handle_response_def)

theorem transcribeFile_http_error_witness:
  "fst (transcribeFile
          (demo_world (plain_response False 401 ''Unauthorized'' ''text/plain'' (lit ''bad key'')))
          (demo_params (Some ''key'')))
   = Inl (Error (lit ''401 Unauthorized: bad key''))"
  using transcribeFile_http_error [OF demo_trace demo_fetch,
      of "plain_response False 401 ''Unauthorized'' ''text/plain'' (lit ''bad key'')"
         "lit ''bad key''"]
  by (simp add: plain_response_def lit_def digit_unit_def)

text \<open>
  C4, as the source has it. When the transport is invoked and returns a response that is
  ok, the result is \<open>expected_transcript\<close>: the string property \<open>text\<close>, else the
  string property \<open>transcription\<close>, else the parsed value serialized again, when the
  content type contains \<open>application/json\<close> and the body parses to a value other than
  \<open>null\<close>; the body as it is when the body does not parse, when it parses to \<open>null\<close>
  (reading a property of \<open>null\<close> throws inside the same \<open>try\<close>), or when the content
  type does not contain \<open>application/json\<close>.
\<close>

theorem transcribeFile_success:
  assumes "Fetch req \<in> set (snd (transcribeFile w params))"
    and "effective_fetchImpl w params req = Inr res"
    and "ok res" and "body_text res = Inr body"
  shows "fst (transcribeFile w params)
           = Inr (expected_transcript (number_to_string w) (content_type res) body)"
proof (cases "str_includes (case content_type res of None \<Rightarrow> [] | Some c \<Rightarrow> c)
                (lit ''application/json'')")
  case True
  have inc: "str_includes (lit ''application/json'') (lit ''application/json'')"
    by code_simp
  from True have "expected_transcript (number_to_string w) (content_type res) body
      = expected_transcript (number_to_string w) (Some (lit ''application/json'')) body"
    by (simp add: expected_transcript_def inc)
  with True assms(3,4) show ?thesis
    by (simp add: transcribeFile_answer [OF assms(1,2)] handle_response_def json_body_expected)
next
  case False
  with assms(3,4) show ?thesis
    by (simp add: transcribeFile_answer [OF assms(1,2)] handle_response_def
          expected_transcript_def)
qed

theorem transcribeFile_success_witness:
  "fst (transcribeFile
          (demo_world (plain_response True 200 ''OK'' ''application/json'' (lit ''{\"text\":\"hello\"}'')))
          (demo_params (Some ''key''))) = Inr (lit ''hello'')
   \<and> fst (transcribeFile
          (demo_world (plain_response True 200 ''OK'' ''application/json'' (lit ''{\"transcription\":\"hola\"}'')))
          (demo_params (Some ''key''))) = Inr (lit ''hola'')
   \<and> fst (transcribeFile
          (demo_world (plain_response True 200 ''OK'' ''application/json'' (lit ''{ \"words\" : [1, \"a\"] }'')))
          (demo_params (Some ''key''))) = Inr (lit ''{\"words\":[1,\"a\"]}'')
   \<and> fst (transcribeFile
          (demo_world (plain_response True 200 ''OK'' ''application/json'' (lit ''{\"text\": oops'')))
          (demo_params (Some ''key''))) = Inr (lit ''{\"text\": oops'')
   \<and> fst (transcribeFile
          (demo_world (plain_response True 200 ''OK'' ''text/plain'' (lit ''{\"text\":\"hello\"}'')))
          (demo_params (Some ''key''))) = Inr (lit ''{\"text\":\"hello\"}'')"
proof -
  have r: "ok (plain_response True 200 ''OK'' ct b)"
    "body_text (plain_response True 200 ''OK'' ct b) = Inr b" for ct b
    by (simp_all add: plain_response_def)
  note t = transcribeFile_success [OF demo_trace demo_fetch r]
  have e1: "expected_transcript (number_to_string (demo_world x))
              (content_type (plain_response True 200 ''OK'' ''application/json'' (lit ''{\"text\":\"hello\"}'')))
              (lit ''{\"text\":\"hello\"}'') = lit ''hello''" for x
    by code_simp
  have e2: "expected_transcript (number_to_string (demo_world x))
              (content_type (plain_response True 200 ''OK'' ''application/json'' (lit ''{\"transcription\":\"hola\"}'')))
              (lit ''{\"transcription\":\"hola\"}'') = lit ''hola''" for x
    by code_simp
  have e3: "expected_transcript (number_to_string (demo_world x))
              (content_type (plain_response True 200 ''OK'' ''application/json'' (lit ''{ \"words\" : [1, \"a\"] }'')))
              (lit ''{ \"words\" : [1, \"a\"] }'') = lit ''{\"words\":[1,\"a\"]}''" for x
    by code_simp
  have e4: "expected_transcript (number_to_string (demo_world x))
              (content_type (plain_response True 200 ''OK'' ''application/json'' (lit ''{\"text\": oops'')))
              (lit ''{\"text\": oops'') = lit ''{\"text\": oops''" for x
    by code_simp
  have e5: "expected_transcript (number_to_string (demo_world x))
              (content_type (plain_response True 200 ''OK'' ''text/plain'' (lit ''{\"text\":\"hello\"}'')))
              (lit ''{\"text\":\"hello\"}'') = lit ''{\"text\":\"hello\"}''" for x
    by code_simp
  show ?thesis
    by (simp only: t e1 e2 e3 e4 e5 simp_thms)
qed

text \<open>
  C4 as stated fails for a body that parses to \<open>null\<close>: with the content type
  \<open>application/json\<close> and the body " null" (a space before the literal) the body parses,
  no property is a string, the value serialized again is "null", and the result is the
  body as it came, with its space.
\<close>

theorem transcribeFile_null_body:
  "JSON_parse (lit '' null'') = Inr JNull
   \<and> JSON_stringify (number_to_string (demo_world (plain_response True 200 ''OK'' ''application/json'' (lit '' null'')))) JNull
       = lit ''null''
   \<and> fst (transcribeFile
            (demo_world (plain_response True 200 ''OK'' ''application/json'' (lit '' null'')))
            (demo_params (Some ''key''))) = Inr (lit '' null'')
   \<and> lit '' null'' \<noteq> lit ''null''"
  by code_simp

subsection \<open>Waiting for the recording\<close>

declare wait_loop.simps [simp del]

lemma poll_time_mono: "k \<le> j \<Longrightarrow> poll_time w k \<le> poll_time w j"
proof (induction j)
  case 0
  then show ?case by simp
next
  case (Suc j)
  show ?case
  proof (cases "k = Suc j")
    case True
    then show ?thesis by simp
  next
    case False
    with Suc.prems have "k \<le> j" by simp
    then have "poll_time w k \<le> poll_time w j" by (rule Suc.IH)
    then show ?thesis by simp
  qed
qed

lemma wait_loop_result:
  "now = poll_time w k \<Longrightarrow> start = clock0 w \<Longrightarrow>
   fst (wait_loop w p T start k now tr)
     = Inr (\<exists>j\<ge>k. poll_time w j - clock0 w < T \<and> ready (observe w (poll_time w j) p))"
proof (induction w p T start k now tr rule: wait_loop.induct)
  case (1 w p T start k now tr)
  show ?case
  proof (cases "now - start < T")
    case False
    have "\<not> (\<exists>j\<ge>k. poll_time w j - clock0 w < T \<and> ready (observe w (poll_time w j) p))"
    proof
      assume "\<exists>j\<ge>k. poll_time w j - clock0 w < T \<and> ready (observe w (poll_time w j) p)"
      then obtain j where j: "k \<le> j" "poll_time w j - clock0 w < T" by blast
      from poll_time_mono [OF j(1), of w] j(2) False "1.prems" show False by simp
    qed
    with False show ?thesis by (simp add: wait_loop.simps [of w p T start k now tr])
  next
    case True
    note inT = True
    have step: "now + 100 + int (late w (Suc k)) = poll_time w (Suc k)"
      using "1.prems" by simp
    have split: "(\<exists>j\<ge>k. poll_time w j - clock0 w < T \<and> ready (observe w (poll_time w j) p))
        = (ready (observe w now p) \<or>
           (\<exists>j\<ge>Suc k. poll_time w j - clock0 w < T \<and> ready (observe w (poll_time w j) p)))"
      (is "?L = (?A \<or> ?R)")
    proof
      assume ?L
      then obtain j where j: "k \<le> j" "poll_time w j - clock0 w < T"
        "ready (observe w (poll_time w j) p)" by blast
      show "?A \<or> ?R"
      proof (cases "j = k")
        case True
        with j "1.prems" show ?thesis by simp
      next
        case False
        with j have "Suc k \<le> j" by simp
        with j show ?thesis by blast
      qed
    next
      assume "?A \<or> ?R"
      then show ?L
      proof
        assume ?A
        with inT "1.prems" have "poll_time w k - clock0 w < T \<and> ready (observe w (poll_time w k) p)"
          by simp
        then show ?L by blast
      next
        assume ?R
        then obtain j where "Suc k \<le> j" "poll_time w j - clock0 w < T"
          "ready (observe w (poll_time w j) p)" by blast
        then have "k \<le> j \<and> poll_time w j - clock0 w < T \<and> ready (observe w (poll_time w j) p)"
          by simp
        then show ?L by blast
      qed
    qed
    note unf = wait_loop.simps [of w p T start k now tr]
    show ?thesis
    proof (cases "observe w now p")
      case Absent
      then have nr: "\<not> ready (observe w now p)" by (simp add: ready_def)
      from "1.IH"(1) [OF inT Absent step "1.prems"(2)] inT Absent nr show ?thesis
        by (simp add: split unf)
    next
      case (StatFails e)
      then have nr: "\<not> ready (observe w now p)" by (simp add: ready_def)
      from "1.IH"(2) [OF inT StatFails step "1.prems"(2)] inT StatFails nr show ?thesis
        by (simp add: split unf)
    next
      case (Size n)
      show ?thesis
      proof (cases "n > 0")
        case True
        with Size have "ready (observe w now p)" by (simp add: ready_def)
        with inT Size True show ?thesis by (simp add: split unf)
      next
        case False
        with Size have nr: "\<not> ready (observe w now p)" by (simp add: ready_def)
        from "1.IH"(3) [OF inT Size False step "1.prems"(2)] inT Size False nr show ?thesis
          by (simp add: split unf)
      qed
    qed
  qed
qed

lemma waitForFile_result:
  "fst (waitForFile w p T)
     = Inr (\<exists>k. poll_time w k - clock0 w < T \<and> ready (observe w (poll_time w k) p))"
  using wait_loop_result [of "poll_time w 0" w 0 "clock0 w" p T "[]"]
  by (simp add: waitForFile_def)

lemma wait_loop_trace:
  "set (snd (wait_loop w p T start k now tr))
     \<subseteq> set tr \<union> {ExistsSync p, StatSync p, Sleep 100}"
proof (induction w p T start k now tr rule: wait_loop.induct)
  case (1 w p T start k now tr)
  show ?case
  proof (cases "now - start < T")
    case False
    then show ?thesis by (auto simp: wait_loop.simps [of w p T start k now tr])
  next
    case True
    note inT = True
    note unf = wait_loop.simps [of w p T start k now tr]
    show ?thesis
    proof (cases "observe w now p")
      case Absent
      from "1.IH"(1) [OF inT Absent] inT Absent show ?thesis by (auto simp: unf)
    next
      case (StatFails e)
      from "1.IH"(2) [OF inT StatFails] inT StatFails show ?thesis by (auto simp: unf)
    next
      case (Size n)
      show ?thesis
      proof (cases "n > 0")
        case True
        with inT Size show ?thesis by (auto simp: unf)
      next
        case False
        from "1.IH"(3) [OF inT Size False] inT Size False show ?thesis by (auto simp: unf)
      qed
    qed
  qed
qed

lemma poll_time_ge: "clock0 w \<le> poll_time w k"
  by (induction k) auto

lemma poll_time_treat [simp]: "poll_time (treat_errors_as_absent w) k = poll_time w k"
  by (induction k) (simp_all add: treat_errors_as_absent_def)

lemma ready_treat [simp]:
  "ready (observe (treat_errors_as_absent w) t p) = ready (observe w t p)"
  by (simp add: treat_errors_as_absent_def ready_def split: probe.splits)

text \<open>
  C5. \<open>waitForFile\<close> never throws and returns true exactly when some poll made before
  the timeout has elapsed finds the file present with a size above zero; so it returns
  false when the file is at no time within the timeout present with a size above zero.
  Every pause between two polls is a timer of 100 milliseconds. A poll at which
  \<open>statSync\<close> throws counts as a poll that finds nothing: the result is the one of the
  world in which the file is absent at those polls.
\<close>

theorem waitForFile_polls:
  "fst (waitForFile w p T)
     = Inr (\<exists>k. poll_time w k - clock0 w < T \<and> ready (observe w (poll_time w k) p))
   \<and> ((\<forall>t. clock0 w \<le> t \<and> t < clock0 w + T \<longrightarrow> \<not> ready (observe w t p))
        \<longrightarrow> fst (waitForFile w p T) = Inr False)
   \<and> (\<forall>n. Sleep n \<in> set (snd (waitForFile w p T)) \<longrightarrow> n = 100)
   \<and> fst (waitForFile (treat_errors_as_absent w) p T) = fst (waitForFile w p T)"
proof (intro conjI)
  show "fst (waitForFile w p T)
     = Inr (\<exists>k. poll_time w k - clock0 w < T \<and> ready (observe w (poll_time w k) p))"
    by (rule waitForFile_result)
next
  show "(\<forall>t. clock0 w \<le> t \<and> t < clock0 w + T \<longrightarrow> \<not> ready (observe w t p))
        \<longrightarrow> fst (waitForFile w p T) = Inr False"
  proof
    assume never: "\<forall>t. clock0 w \<le> t \<and> t < clock0 w + T \<longrightarrow> \<not> ready (observe w t p)"
    have "\<not> (\<exists>k. poll_time w k - clock0 w < T \<and> ready (observe w (poll_time w k) p))"
    proof
      assume "\<exists>k. poll_time w k - clock0 w < T \<and> ready (observe w (poll_time w k) p)"
      then obtain k where k: "poll_time w k - clock0 w < T" "ready (observe w (poll_time w k) p)"
        by blast
      from k(1) poll_time_ge [of w k]
      have "clock0 w \<le> poll_time w k \<and> poll_time w k < clock0 w + T" by simp
      with never k(2) show False by blast
    qed
    then show "fst (waitForFile w p T) = Inr False" by (simp add: waitForFile_result)
  qed
next
  show "\<forall>n. Sleep n \<in> set (snd (waitForFile w p T)) \<longrightarrow> n = 100"
    using wait_loop_trace [of w p T "clock0 w" 0 "clock0 w + int (late w 0)" "[]"]
    by (auto simp: waitForFile_def)
next
  show "fst (waitForFile (treat_errors_as_absent w) p T) = fst (waitForFile w p T)"
    by (simp add: waitForFile_result) (simp add: treat_errors_as_absent_def)
qed

theorem waitForFile_polls_witness:
  "fst (waitForFile demo_polls (lit ''/tmp/pi-voice/recording.wav'') 500) = Inr True
   \<and> fst (waitForFile empty_polls (lit ''/tmp/pi-voice/recording.wav'') 200) = Inr False
   \<and> Sleep 100 \<in> set (snd (waitForFile demo_polls (lit ''/tmp/pi-voice/recording.wav'') 500))"
proof -
  let ?p = "lit ''/tmp/pi-voice/recording.wav''"
  have "poll_time demo_polls (Suc (Suc 0)) - clock0 demo_polls < 500
        \<and> ready (observe demo_polls (poll_time demo_polls (Suc (Suc 0))) ?p)"
    by (simp add: demo_polls_def ready_def)
  then have ex: "\<exists>k. poll_time demo_polls k - clock0 demo_polls < 500
        \<and> ready (observe demo_polls (poll_time demo_polls k) ?p)" by blast
  have never: "\<forall>t. clock0 empty_polls \<le> t \<and> t < clock0 empty_polls + 200
        \<longrightarrow> \<not> ready (observe empty_polls t ?p)"
    by (simp add: empty_polls_def ready_def)
  have tr: "Sleep 100 \<in> set (snd (waitForFile demo_polls ?p 500))"
    by code_simp
  from waitForFile_polls [of demo_polls ?p 500] ex
  have a: "fst (waitForFile demo_polls ?p 500) = Inr True" by simp
  from waitForFile_polls [of empty_polls ?p 200] never
  have b: "fst (waitForFile empty_polls ?p 200) = Inr False" by blast
  from a b tr show ?thesis by simp
qed

text \<open>
  C10. With a timeout of zero or less \<open>waitForFile\<close> returns false and has made no
  call at all (no \<open>existsSync\<close>, no \<open>statSync\<close>, no timer), whatever the file is:
  the condition of the loop is evaluated before the first check.
\<close>

theorem waitForFile_nonpositive_timeout:
  "T \<le> 0 \<Longrightarrow> waitForFile w p T = (Inr False, [])"
  by (simp add: waitForFile_def wait_loop.simps [of w p T])

theorem waitForFile_nonpositive_timeout_witness:
  "ready (observe present_polls (clock0 present_polls) (lit ''/tmp/pi-voice/recording.wav''))
   \<and> waitForFile present_polls (lit ''/tmp/pi-voice/recording.wav'') 0 = (Inr False, [])
   \<and> waitForFile present_polls (lit ''/tmp/pi-voice/recording.wav'') (- 5) = (Inr False, [])"
  using waitForFile_nonpositive_timeout [of 0 present_polls "lit ''/tmp/pi-voice/recording.wav''"]
    waitForFile_nonpositive_timeout [of "- 5" present_polls "lit ''/tmp/pi-voice/recording.wav''"]
  by (simp add: present_polls_def ready_def)

subsection \<open>Configuration\<close>

lemma accepted_model_iff:
  "accepted_model v = (\<exists>m. v = Some (JString m) \<and> m \<in> set MODEL_OPTIONS)"
  by (auto simp: accepted_model_def MODEL_OPTIONS_def lit_def split: option.splits json.splits)

lemma loadConfig_cases:
  "loadConfig fs p =
     Inr \<lparr>model =
       (case readFileSync fs p of
          Inl e \<Rightarrow> None
        | Inr raw \<Rightarrow>
            (case JSON_parse raw of
               Inl e \<Rightarrow> None
             | Inr parsed \<Rightarrow>
                 (case get_prop_opt parsed (lit ''model'') of
                    Some (JString m) \<Rightarrow> if m \<in> set MODEL_OPTIONS then Some m else None
                  | _ \<Rightarrow> None)))\<rparr>"
proof (cases "existsSync fs p")
  case False
  then show ?thesis
    by (simp add: loadConfig_def existsSync_def readFileSync_def split: option.splits)
next
  case True
  then show ?thesis
    by (auto simp: loadConfig_def accepted_model_iff split: sum.splits option.splits json.splits)
qed

text \<open>
  C7. \<open>loadConfig\<close> never throws: for every file system and path it returns a
  configuration. A missing file, a file that cannot be read and a text that is not JSON
  give the empty configuration. A model is returned only if it is one of the two
  identifiers of \<open>MODEL_OPTIONS\<close>, and it is returned when the file holds JSON whose
  property \<open>model\<close> is that string; a parsed value whose property \<open>model\<close> is
  anything else gives the empty configuration.
\<close>

theorem loadConfig_never_throws:
  "(\<exists>c. loadConfig fs p = Inr c)
   \<and> (\<not> existsSync fs p \<longrightarrow> loadConfig fs p = Inr empty_config)
   \<and> (\<forall>e. readFileSync fs p = Inl e \<longrightarrow> loadConfig fs p = Inr empty_config)
   \<and> (\<forall>raw e. readFileSync fs p = Inr raw \<and> JSON_parse raw = Inl e
         \<longrightarrow> loadConfig fs p = Inr empty_config)
   \<and> (\<forall>m. loadConfig fs p = Inr \<lparr>model = Some m\<rparr>
         \<longrightarrow> m = lit ''nvidia/parakeet-tdt-0.6b-v3'' \<or> m = lit ''openai/whisper-large-v3'')
   \<and> (\<forall>raw parsed m. readFileSync fs p = Inr raw \<and> JSON_parse raw = Inr parsed
           \<and> get_prop_opt parsed (lit ''model'') = Some (JString m)
           \<and> (m = lit ''nvidia/parakeet-tdt-0.6b-v3'' \<or> m = lit ''openai/whisper-large-v3'')
         \<longrightarrow> loadConfig fs p = Inr \<lparr>model = Some m\<rparr>)
   \<and> (\<forall>raw parsed. readFileSync fs p = Inr raw \<and> JSON_parse raw = Inr parsed
           \<and> get_prop_opt parsed (lit ''model'')
                \<noteq> Some (JString (lit ''nvidia/parakeet-tdt-0.6b-v3''))
           \<and> get_prop_opt parsed (lit ''model'')
                \<noteq> Some (JString (lit ''openai/whisper-large-v3''))
         \<longrightarrow> loadConfig fs p = Inr empty_config)"
proof -
  have opts: "\<And>m. (m \<in> set MODEL_OPTIONS)
      = (m = lit ''nvidia/parakeet-tdt-0.6b-v3'' \<or> m = lit ''openai/whisper-large-v3'')"
    by (simp add: MODEL_OPTIONS_def)
  have nex: "\<not> existsSync fs p \<Longrightarrow> \<exists>e. readFileSync fs p = Inl e"
    by (simp add: existsSync_def readFileSync_def split: option.splits)
  show ?thesis
    apply (intro conjI allI impI)
          apply (simp add: loadConfig_cases)
         apply (drule nex, clarsimp simp: loadConfig_cases empty_config_def)
        apply (simp add: loadConfig_cases empty_config_def)
       apply (simp add: loadConfig_cases empty_config_def)
      apply (simp add: loadConfig_cases opts split: sum.splits option.splits json.splits if_splits)
     apply (auto simp: loadConfig_cases opts)[1]
    apply (auto simp: loadConfig_cases opts empty_config_def split: option.splits json.splits)
    done
qed

theorem loadConfig_never_throws_witness:
  "loadConfig locked_fs (lit ''/home/u/voice.json'') = Inr empty_config
   \<and> loadConfig (unreadable_fs (lit ''/home/u/voice.json'')) (lit ''/home/u/voice.json'')
       = Inr empty_config
   \<and> loadConfig (config_fs (lit ''/home/u/voice.json'') (lit ''{\"model\": oops''))
         (lit ''/home/u/voice.json'') = Inr empty_config
   \<and> loadConfig (config_fs (lit ''/home/u/voice.json'') (lit ''{\"model\":\"bogus\"}''))
         (lit ''/home/u/voice.json'') = Inr empty_config
   \<and> loadConfig (config_fs (lit ''/home/u/voice.json'') (lit ''{\"model\":\"openai/whisper-large-v3\"}''))
         (lit ''/home/u/voice.json'') = Inr \<lparr>model = Some (lit ''openai/whisper-large-v3'')\<rparr>"
proof -
  let ?p = "lit ''/home/u/voice.json''"
  have missing: "\<not> existsSync locked_fs ?p"
    by (simp add: existsSync_def locked_fs_def)
  have unread: "readFileSync (unreadable_fs ?p) ?p = Inl (SystemError (lit ''EACCES''))"
    by (simp add: readFileSync_def unreadable_fs_def)
  have rd: "readFileSync (config_fs ?p jtext) ?p = Inr jtext" for jtext
    by (simp add: readFileSync_def config_fs_def)
  have bad: "JSON_parse (lit ''{\"model\": oops'') = Inl (SyntaxError (lit ''Unexpected token in JSON''))"
    by code_simp
  have bogus: "JSON_parse (lit ''{\"model\":\"bogus\"}'') = Inr (JObject [(lit ''model'', JString (lit ''bogus''))])"
    by code_simp
  have bogus_no:
    "get_prop_opt (JObject [(lit ''model'', JString (lit ''bogus''))]) (lit ''model'')
       \<noteq> Some (JString (lit ''nvidia/parakeet-tdt-0.6b-v3''))
     \<and> get_prop_opt (JObject [(lit ''model'', JString (lit ''bogus''))]) (lit ''model'')
       \<noteq> Some (JString (lit ''openai/whisper-large-v3''))"
    by code_simp
  have good: "JSON_parse (lit ''{\"model\":\"openai/whisper-large-v3\"}'')
      = Inr (JObject [(lit ''model'', JString (lit ''openai/whisper-large-v3''))])"
    by code_simp
  have good_get:
    "get_prop_opt (JObject [(lit ''model'', JString (lit ''openai/whisper-large-v3''))]) (lit ''model'')
       = Some (JString (lit ''openai/whisper-large-v3''))"
    by (simp add: get_prop_opt_def get_prop_def)
  note m = loadConfig_never_throws [of locked_fs ?p]
  note u = loadConfig_never_throws [of "unreadable_fs ?p" ?p]
  note o = loadConfig_never_throws [of "config_fs ?p (lit ''{\"model\": oops'')" ?p]
  note g = loadConfig_never_throws [of "config_fs ?p (lit ''{\"model\":\"bogus\"}'')" ?p]
  note v = loadConfig_never_throws
    [of "config_fs ?p (lit ''{\"model\":\"openai/whisper-large-v3\"}'')" ?p]
  have a: "loadConfig locked_fs ?p = Inr empty_config"
    by (rule m [THEN conjunct2, THEN conjunct1, rule_format, OF missing])
  have b: "loadConfig (unreadable_fs ?p) ?p = Inr empty_config"
    by (rule u [THEN conjunct2, THEN conjunct2, THEN conjunct1, rule_format, OF unread])
  have c: "loadConfig (config_fs ?p (lit ''{\"model\": oops'')) ?p = Inr empty_config"
    by (rule o [THEN conjunct2, THEN conjunct2, THEN conjunct2, THEN conjunct1, rule_format,
          OF conjI [OF rd bad]])
  have d: "loadConfig (config_fs ?p (lit ''{\"model\":\"bogus\"}'')) ?p = Inr empty_config"
    by (rule g [THEN conjunct2, THEN conjunct2, THEN conjunct2, THEN conjunct2, THEN conjunct2,
          THEN conjunct2, rule_format, OF conjI [OF rd conjI [OF bogus bogus_no]]])
  have e: "loadConfig (config_fs ?p (lit ''{\"model\":\"openai/whisper-large-v3\"}'')) ?p
      = Inr \<lparr>model = Some (lit ''openai/whisper-large-v3'')\<rparr>"
    by (rule v [THEN conjunct2, THEN conjunct2, THEN conjunct2, THEN conjunct2, THEN conjunct2,
          THEN conjunct1, rule_format,
          OF conjI [OF rd conjI [OF good conjI [OF good_get disjI2 [OF refl]]]]])
  show ?thesis
    by (intro conjI) (rule a b c d e)+
qed





subsection \<open>The extension\<close>


























text \<open>
  C9, as the source has it. Without a user interface (\<open>ctx.hasUI\<close> false) the command
  notifies "voice requires interactive mode" as an error and the shortcut returns
  without any notification; both leave the state as it is, so neither starts nor stops a
  recording.
\<close>

theorem toggle_without_ui:
  "\<not> hasUI io \<Longrightarrow>
     command_handler args io s
       = (s, [Notify (lit ''voice requires interactive mode'') (lit ''error'')], None)
     \<and> shortcut_handler io s = (s, [], None)"
  by (simp add: command_handler_def shortcut_handler_def)

theorem toggle_without_ui_witness:
  "command_handler None headless_host recording_state
     = (recording_state, [Notify (lit ''voice requires interactive mode'') (lit ''error'')], None)
   \<and> shortcut_handler headless_host recording_state = (recording_state, [], None)"
proof -
  have "\<not> hasUI headless_host"
    by (simp add: headless_host_def)
  then show ?thesis
    by (rule toggle_without_ui)
qed

text \<open>
  C9 as stated fails for the shortcut: without a user interface its handler produces no
  message at all.
\<close>

theorem shortcut_without_ui_is_silent:
  "fst (snd (shortcut_handler headless_host (init_state (lit ''/home/u'') fresh_fs))) = []"
  by (simp add: shortcut_handler_def headless_host_def demo_host_def)

end
